theory Spec2Isabelle
  imports Complex_Main
begin

section \<open>The drawing library, as far as the widgets use it\<close>

text \<open>
  The widgets of \<^verbatim>\<open>minesweeper/gui.py\<close> draw through pygame. The library is not
  part of the repository, so the model keeps only what the widgets observe of it: a
  surface has a pixel size and the ordered list of what was drawn on it; a rectangle has
  integer coordinates; a font measures a text and rasterises it, and rasterising may
  raise. Sizes and coordinates are unbounded integers: pygame raises on a surface of
  negative size and on a coordinate outside the C integer range, and these failures are
  not modelled.
\<close>

type_synonym color = "nat \<times> nat \<times> nat"

datatype draw =
    Line color "int \<times> int" "int \<times> int" int
  | Glyphs string color
  | Fill "nat \<times> nat \<times> nat \<times> nat"
  | Blit surface "int \<times> int"
and surface = Surface (get_size: "int \<times> int") (drawn: "draw list")

definition get_width :: "surface \<Rightarrow> int" where
  "get_width s = fst (get_size s)"

definition get_height :: "surface \<Rightarrow> int" where
  "get_height s = snd (get_size s)"

text \<open>\<^verbatim>\<open>pygame.Surface((width, height), pygame.SRCALPHA)\<close>: nothing drawn yet.\<close>

definition new_surface :: "int \<Rightarrow> int \<Rightarrow> surface" where
  "new_surface w h = Surface (w, h) []"

text \<open>\<^verbatim>\<open>pygame.draw.line\<close>, \<^verbatim>\<open>Surface.blit\<close> and \<^verbatim>\<open>Surface.fill\<close> add to what is drawn; later
  entries are painted over earlier ones.\<close>

definition draw_line :: "surface \<Rightarrow> color \<Rightarrow> int \<times> int \<Rightarrow> int \<times> int \<Rightarrow> int \<Rightarrow> surface" where
  "draw_line s c p q line_width = Surface (get_size s) (drawn s @ [Line c p q line_width])"

definition blit :: "surface \<Rightarrow> surface \<Rightarrow> int \<times> int \<Rightarrow> surface" where
  "blit s src dest = Surface (get_size s) (drawn s @ [Blit src dest])"

definition fill :: "surface \<Rightarrow> nat \<times> nat \<times> nat \<times> nat \<Rightarrow> surface" where
  "fill s c = Surface (get_size s) (drawn s @ [Fill c])"

record rect =
  rect_x :: int
  rect_y :: int
  rect_w :: int
  rect_h :: int

definition Rect :: "int \<Rightarrow> int \<Rightarrow> int \<Rightarrow> int \<Rightarrow> rect" where
  "Rect x y w h = \<lparr>rect_x = x, rect_y = y, rect_w = w, rect_h = h\<rparr>"

definition topleft :: "rect \<Rightarrow> int \<times> int" where
  "topleft r = (rect_x r, rect_y r)"

definition rect_size :: "rect \<Rightarrow> int \<times> int" where
  "rect_size r = (rect_w r, rect_h r)"

text \<open>Integer division as pygame's C code does it: the quotient is truncated towards
  zero.\<close>

definition c_half :: "int \<Rightarrow> int" where
  "c_half n = (if 0 \<le> n then n div 2 else - ((- n) div 2))"

definition center :: "rect \<Rightarrow> int \<times> int" where
  "center r = (rect_x r + c_half (rect_w r), rect_y r + c_half (rect_h r))"

text \<open>\<^verbatim>\<open>Rect.collidepoint\<close>: the left and top edges are inside, the right and bottom
  edges are not.\<close>

definition collidepoint :: "rect \<Rightarrow> int \<Rightarrow> int \<Rightarrow> bool" where
  "collidepoint r x y \<longleftrightarrow>
     rect_x r \<le> x \<and> x < rect_x r + rect_w r \<and> rect_y r \<le> y \<and> y < rect_y r + rect_h r"

text \<open>\<^verbatim>\<open>Surface.get_rect()\<close>, \<^verbatim>\<open>get_rect(topleft=p)\<close> and \<^verbatim>\<open>get_rect(center=p)\<close>: a rectangle
  of the surface's size, at the origin or moved so that the named point is where asked.\<close>

definition get_rect :: "surface \<Rightarrow> rect" where
  "get_rect s = Rect 0 0 (get_width s) (get_height s)"

definition get_rect_topleft :: "surface \<Rightarrow> int \<times> int \<Rightarrow> rect" where
  "get_rect_topleft s p = Rect (fst p) (snd p) (get_width s) (get_height s)"

definition get_rect_center :: "surface \<Rightarrow> int \<times> int \<Rightarrow> rect" where
  "get_rect_center s p =
     Rect (fst p - c_half (get_width s)) (snd p - c_half (get_height s))
          (get_width s) (get_height s)"

text \<open>
  A \<^verbatim>\<open>pygame.font.Font\<close>, taken as a parameter: \<open>font_size\<close> is \<^verbatim>\<open>Font.size\<close>,
  \<open>font_get_height\<close> is \<^verbatim>\<open>Font.get_height\<close>, and \<open>font_render_size\<close> gives the pixel size
  of the image \<^verbatim>\<open>Font.render\<close> returns for a text, or \<open>None\<close> where \<^verbatim>\<open>Font.render\<close> raises.
\<close>

record font =
  font_render_size :: "string \<Rightarrow> (int \<times> int) option"
  font_size :: "string \<Rightarrow> int \<times> int"
  font_get_height :: int

datatype error = ValueError | IndexError | AttributeError | RenderError | CallbackError

text \<open>What a method call did: it returned, or an exception left it. The widget is a
  mutable object, so its state after the call exists in both cases.\<close>

datatype outcome = Returned | Raised error

definition render_text :: "font \<Rightarrow> string \<Rightarrow> color \<Rightarrow> surface option" where
  "render_text f text c =
     (case font_render_size f text of
        None \<Rightarrow> None
      | Some sz \<Rightarrow> Some (Surface sz [Glyphs text c]))"

definition LEFT_CLICK :: int where
  "LEFT_CLICK = 1"

definition create_frame_image :: "int \<Rightarrow> int \<Rightarrow> color \<Rightarrow> surface" where
  "create_frame_image width height c =
     (let line_width = 1;
          ret = new_surface width height;
          ret = draw_line ret c (0, 0) (width, 0) line_width;
          ret = draw_line ret c (0, 0) (0, height) line_width;
          ret = draw_line ret c (width - 1, 0) (width - 1, height) line_width;
          ret = draw_line ret c (0, height - 1) (width, height - 1) line_width
      in ret)"

section \<open>Label\<close>

record label =
  l_font :: font
  l_font_color :: color
  l_surface :: surface
  l_rect :: rect

definition Label_init :: "font \<Rightarrow> color \<Rightarrow> string \<Rightarrow> int \<times> int \<Rightarrow> error + label" where
  "Label_init f c text position =
     (case render_text f text c of
        None \<Rightarrow> Inl RenderError
      | Some s \<Rightarrow> Inr \<lparr>l_font = f, l_font_color = c, l_surface = s,
                       l_rect = get_rect_topleft s position\<rparr>)"

definition set_text :: "string \<Rightarrow> label \<Rightarrow> outcome \<times> label" where
  "set_text text self =
     (case render_text (l_font self) text (l_font_color self) of
        None \<Rightarrow> (Raised RenderError, self)
      | Some s \<Rightarrow> (Returned, self\<lparr>l_surface := s\<rparr>))"

definition label_render :: "label \<Rightarrow> surface" where
  "label_render self = l_surface self"

section \<open>Input\<close>

text \<open>
  The values the owner of an \<^verbatim>\<open>Input\<close> passes in: the docstring asks for a string and
  promises that everything is converted with \<^verbatim>\<open>str\<close>, so integers are modelled beside
  strings. A string is the list of its characters.
\<close>

datatype pyval = PStr string | PInt int

fun digits :: "nat \<Rightarrow> string" where
  "digits n = (if n < 10 then [char_of (48 + n)]
               else digits (n div 10) @ [char_of (48 + n mod 10)])"

declare digits.simps [simp del]

fun py_str :: "pyval \<Rightarrow> string" where
  "py_str (PStr s) = s"
| "py_str (PInt i) = (if i < 0 then CHR ''-'' # digits (nat (- i)) else digits (nat i))"

text \<open>\<^verbatim>\<open>value == self.current_value\<close> where the right side is a string: an integer never
  equals a string.\<close>

fun py_eq_str :: "pyval \<Rightarrow> string \<Rightarrow> bool" where
  "py_eq_str (PStr s) t \<longleftrightarrow> s = t"
| "py_eq_str (PInt i) t \<longleftrightarrow> False"

text \<open>
  The fields of \<^verbatim>\<open>Input\<close>. \<open>i_value\<close> is the committed value \<^verbatim>\<open>self.value\<close>,
  \<open>i_current_value\<close> the pending one \<^verbatim>\<open>self.current_value\<close>, \<open>i_in_input\<close> the edit flag
  \<^verbatim>\<open>self.in_input\<close>. The fields \<^verbatim>\<open>text\<close>, \<^verbatim>\<open>boarder\<close> and \<^verbatim>\<open>text_rect\<close> are set to
  \<^verbatim>\<open>None\<close> by the constructor and never touched again; they are left out. The callback
  is the host's callable: for a value it gives the truth value of the result, or \<open>None\<close>
  where the callable raises (the exception is \<open>CallbackError\<close>). \<open>i_renders\<close> is
  not a field of the class: it counts the completed runs of \<^verbatim>\<open>_prepare_render\<close>, so that a
  re-render can be observed.
\<close>

record input =
  i_font :: font
  i_font_color :: color
  i_width :: "int option"
  i_active_input :: bool
  i_in_input :: bool
  i_title :: string
  i_value :: string
  i_current_value :: string
  i_delimiter :: string
  i_frame_color :: color
  i_max_value_length :: "int option"
  i_allowed_symbols :: "string list option"
  i_on_enter_callback :: "(string \<Rightarrow> bool option) option"
  i_surface :: "surface option"
  i_value_rect :: "rect option"
  i_rect :: "rect option"
  i_renders :: nat

text \<open>The text \<^verbatim>\<open>_prepare_render\<close> displays as the value: the pending value, with the
  cursor when editing.\<close>

definition shown_value :: "input \<Rightarrow> string" where
  "shown_value self =
     (if i_in_input self then i_current_value self @ ''_'' else i_current_value self)"

text \<open>The geometry \<^verbatim>\<open>_prepare_render\<close> computes from the rendered text: the surface's
  size, where the text goes and the rectangle under the value.\<close>

definition render_width :: "input \<Rightarrow> surface \<Rightarrow> int" where
  "render_width self text = (case i_width self of None \<Rightarrow> get_width text | Some w \<Rightarrow> w)"

definition render_text_rect :: "input \<Rightarrow> surface \<Rightarrow> rect" where
  "render_text_rect self text =
     get_rect_center text
       (center (get_rect (new_surface (render_width self text) (get_height text))))"

definition render_value_rect :: "input \<Rightarrow> surface \<Rightarrow> rect" where
  "render_value_rect self text =
     (let text_rect = render_text_rect self text;
          title_width = fst (font_size (i_font self) (i_title self @ i_delimiter self));
          value_width = fst (font_size (i_font self) (shown_value self));
          value_height = snd (font_size (i_font self) (shown_value self));
          margin = fst (font_size (i_font self) ''|'')
      in Rect (rect_x text_rect + title_width - margin) (rect_y text_rect)
              (value_width + 2 * margin) value_height)"

definition prepare_render :: "input \<Rightarrow> outcome \<times> input" where
  "prepare_render self =
     (case render_text (i_font self)
             (i_title self @ i_delimiter self @ shown_value self) (i_font_color self) of
        None \<Rightarrow> (Raised RenderError, self)
      | Some text \<Rightarrow>
          (let surface = new_surface (render_width self text) (get_height text);
               text_rect = render_text_rect self text;
               value_rect = render_value_rect self text;
               surface = (if i_active_input self
                          then blit surface
                                 (create_frame_image (rect_w value_rect) (rect_h value_rect)
                                    (i_frame_color self))
                                 (topleft value_rect)
                          else surface);
               surface = blit surface text (topleft text_rect)
           in (Returned,
               self\<lparr>i_surface := Some surface,
                    i_value_rect := Some value_rect,
                    i_rect := (case i_rect self of
                                 None \<Rightarrow> None
                               | Some r \<Rightarrow> Some (r\<lparr>rect_w := fst (get_size surface),
                                                      rect_h := snd (get_size surface)\<rparr>)),
                    i_renders := Suc (i_renders self)\<rparr>)))"

definition Input_init ::
  "font \<Rightarrow> color \<Rightarrow> string \<Rightarrow> pyval \<Rightarrow> string \<Rightarrow> color option \<Rightarrow> bool \<Rightarrow> int option \<Rightarrow>
   int option \<Rightarrow> string list option \<Rightarrow> (string \<Rightarrow> bool option) option \<Rightarrow> int \<times> int \<Rightarrow>
   error + input" where
  "Input_init f c title v delimiter frame_color active_input width max_value_length
     allowed_symbols on_enter_callback position =
     (let self = \<lparr>i_font = f, i_font_color = c, i_width = width,
                  i_active_input = active_input, i_in_input = False, i_title = title,
                  i_value = py_str v, i_current_value = py_str v, i_delimiter = delimiter,
                  i_frame_color = (case frame_color of None \<Rightarrow> c | Some fc \<Rightarrow> fc),
                  i_max_value_length = max_value_length,
                  i_allowed_symbols = allowed_symbols,
                  i_on_enter_callback = on_enter_callback,
                  i_surface = None, i_value_rect = None, i_rect = None, i_renders = 0\<rparr>
      in case prepare_render self of
           (Raised e, _) \<Rightarrow> Inl e
         | (Returned, self) \<Rightarrow>
             (case i_surface self of
                None \<Rightarrow> Inl AttributeError
              | Some s \<Rightarrow> Inr (self\<lparr>i_rect := Some (get_rect_topleft s position)\<rparr>)))"

definition input_render :: "input \<Rightarrow> surface option" where
  "input_render self = i_surface self"

definition set_value :: "pyval \<Rightarrow> input \<Rightarrow> outcome \<times> input" where
  "set_value v self =
     (if py_eq_str v (i_current_value self) then (Returned, self)
      else prepare_render (self\<lparr>i_current_value := py_str v, i_value := py_str v\<rparr>))"

text \<open>The pointer position \<^verbatim>\<open>pygame.mouse.get_pos()\<close> is read from the library; here it
  is an argument.\<close>

definition on_mouse_click :: "int \<Rightarrow> int \<times> int \<Rightarrow> input \<Rightarrow> outcome \<times> input" where
  "on_mouse_click button mouse_pos self =
     (if \<not> i_active_input self \<or> button \<noteq> LEFT_CLICK then (Returned, self)
      else case i_rect self of
             None \<Rightarrow> (Raised AttributeError, self)
           | Some r \<Rightarrow>
               (let x = fst mouse_pos - rect_x r;
                    y = snd mouse_pos - rect_y r
                in case i_value_rect self of
                     None \<Rightarrow> (Raised AttributeError, self)
                   | Some value_rect \<Rightarrow>
                       (if collidepoint value_rect x y
                        then prepare_render (self\<lparr>i_in_input := True\<rparr>)
                        else prepare_render
                               (self\<lparr>i_in_input := False,
                                     i_current_value := i_value self\<rparr>))))"

definition K_BACKSPACE :: int where
  "K_BACKSPACE = 8"

definition K_RETURN :: int where
  "K_RETURN = 13"

text \<open>What enter does before the re-render: the edit flag is cleared first, then the
  callback, if any, is called with the pending value. A callback that raises leaves the
  method there, with the flag cleared and neither value assigned.\<close>

definition enter_update :: "input \<Rightarrow> outcome \<times> input" where
  "enter_update self =
     (let self = self\<lparr>i_in_input := False\<rparr>
      in case i_on_enter_callback self of
           Some cb \<Rightarrow>
             (case cb (i_current_value self) of
                None \<Rightarrow> (Raised CallbackError, self)
              | Some accepted \<Rightarrow>
                  (if accepted then (Returned, self\<lparr>i_value := i_current_value self\<rparr>)
                   else (Returned, self\<lparr>i_current_value := i_value self\<rparr>)))
         | None \<Rightarrow> (Returned, self\<lparr>i_value := i_current_value self\<rparr>))"

text \<open>\<^verbatim>\<open>len(self.current_value) == self.max_value_length\<close>: a length never equals
  \<^verbatim>\<open>None\<close>.\<close>

definition at_max_length :: "input \<Rightarrow> bool" where
  "at_max_length self =
     (case i_max_value_length self of
        None \<Rightarrow> False
      | Some m \<Rightarrow> int (length (i_current_value self)) = m)"

definition symbol_allowed :: "input \<Rightarrow> string \<Rightarrow> bool" where
  "symbol_allowed self key_name =
     (case i_allowed_symbols self of None \<Rightarrow> True | Some syms \<Rightarrow> key_name \<in> set syms)"

text \<open>\<open>key_name\<close> is \<^verbatim>\<open>pygame.key.name\<close>, a parameter.\<close>

definition on_key_press :: "(int \<Rightarrow> string) \<Rightarrow> int \<Rightarrow> input \<Rightarrow> outcome \<times> input" where
  "on_key_press key_name key self =
     (if \<not> i_in_input self then (Returned, self)
      else if key = K_BACKSPACE then
        (if i_current_value self \<noteq> []
         then prepare_render (self\<lparr>i_current_value := butlast (i_current_value self)\<rparr>)
         else (Returned, self))
      else if key = K_RETURN then
        (case enter_update self of
           (Raised e, self) \<Rightarrow> (Raised e, self)
         | (Returned, self) \<Rightarrow> prepare_render self)
      else if at_max_length self then (Returned, self)
      else if symbol_allowed self (key_name key)
        then prepare_render
               (self\<lparr>i_current_value := i_current_value self @ key_name key\<rparr>)
        else (Returned, self))"

section \<open>SelectionGroup\<close>

text \<open>
  The layout arithmetic of \<^verbatim>\<open>SelectionGroup.__init__\<close> multiplies pixel sizes by 0.5 and
  1.5. These products are multiples of one half, which a Python float holds exactly, so
  they are modelled as rationals. Where a float reaches a rectangle or a surface size,
  pygame converts it to a C integer; the model truncates towards zero. A pygame release
  that rounds a float given to \<^verbatim>\<open>get_rect\<close> places the marker and text rectangles one
  pixel further for odd sizes; for even sizes, as in the examples, the two agree.
\<close>

definition py_trunc :: "rat \<Rightarrow> int" where
  "py_trunc q = (if 0 \<le> q then \<lfloor>q\<rfloor> else \<lceil>q\<rceil>)"

text \<open>
  The fields of \<^verbatim>\<open>SelectionGroup\<close>; \<open>g_selected\<close> is \<^verbatim>\<open>self._selected\<close>. The change
  callback returns nothing, so only whether it is registered is a field (\<open>g_callback\<close>).
  \<open>g_calls\<close> is not a field of the class: it is the log of the callback's invocations,
  each with the argument passed and the value \<^verbatim>\<open>self._selected\<close> had when the call was
  made.
\<close>

record selection_group =
  g_unselected_image :: surface
  g_selected_image :: surface
  g_options :: "string list"
  g_n_options :: nat
  g_title_image :: surface
  g_surface :: surface
  g_rect :: rect
  g_button_rects :: "rect list"
  g_item_rects :: "rect list"
  g_selected :: nat
  g_callback :: bool
  g_calls :: "(string \<times> nat) list"

text \<open>The list comprehension that renders the options; the first failing render raises.\<close>

fun render_options :: "font \<Rightarrow> color \<Rightarrow> string list \<Rightarrow> surface list option" where
  "render_options f c [] = Some []"
| "render_options f c (option # rest) =
     (case render_text f option c of
        None \<Rightarrow> None
      | Some im \<Rightarrow> (case render_options f c rest of
                      None \<Rightarrow> None
                    | Some ims \<Rightarrow> Some (im # ims)))"

text \<open>\<^verbatim>\<open>max\<close> of a list raises \<^verbatim>\<open>ValueError\<close> on the empty list.\<close>

definition py_max :: "rat list \<Rightarrow> error + rat" where
  "py_max xs = (case xs of [] \<Rightarrow> Inl ValueError | x # rest \<Rightarrow> Inr (foldl max x rest))"

text \<open>The loop that lays out the rows: for each option its marker rectangle, its text
  rectangle and its item rectangle, with \<open>y\<close> advancing by one and a half rows.\<close>

fun layout_rows ::
  "surface \<Rightarrow> int \<Rightarrow> rat \<Rightarrow> (surface \<times> rat) list \<Rightarrow> (rect \<times> rect \<times> rect) list" where
  "layout_rows unselected_image item_height y [] = []"
| "layout_rows unselected_image item_height y ((option_image, item_width) # rest) =
     (let button_rect = Rect 0 (py_trunc y) (get_width unselected_image)
                          (get_height unselected_image);
          centery = rect_y button_rect + c_half (rect_h button_rect);
          option_rect =
            Rect (py_trunc (of_int (rect_x button_rect + rect_w button_rect)
                            + (1 / 2) * of_int (rect_w button_rect)))
                 (centery - c_half (get_height option_image))
                 (get_width option_image) (get_height option_image);
          item_rect = Rect 0 (py_trunc y) (py_trunc item_width) item_height
      in (button_rect, option_rect, item_rect)
         # layout_rows unselected_image item_height (y + (3 / 2) * of_int item_height) rest)"

fun blit_all :: "surface \<Rightarrow> (surface \<times> int \<times> int) list \<Rightarrow> surface" where
  "blit_all s [] = s"
| "blit_all s ((im, dest) # rest) = blit_all (blit s im dest) rest"

definition SelectionGroup_init ::
  "font \<Rightarrow> color \<Rightarrow> surface \<Rightarrow> surface \<Rightarrow> string \<Rightarrow> string list \<Rightarrow> bool \<Rightarrow> int \<times> int \<Rightarrow>
   error + selection_group" where
  "SelectionGroup_init f c unselected_image selected_image title options
     on_change_callback position =
     (if get_size unselected_image \<noteq> get_size selected_image then Inl ValueError
      else case render_text f title c of
        None \<Rightarrow> Inl RenderError
      | Some title_image \<Rightarrow>
      (case render_options f c options of
        None \<Rightarrow> Inl RenderError
      | Some option_images \<Rightarrow>
      (let item_height = max (get_height unselected_image) (font_get_height f);
           button_width = get_width unselected_image;
           item_widths = map (\<lambda>option_image.
                                 (3 / 2) * of_int button_width
                                 + of_int (get_width option_image)) option_images
       in case py_max item_widths of
            Inl e \<Rightarrow> Inl e
          | Inr widest \<Rightarrow>
      (let width = max widest (of_int (get_width title_image));
           height = of_int (get_height title_image)
                    + (1 / 2) * of_int item_height
                    + (3 / 2) * of_int item_height * of_nat (length options);
           surface = new_surface (py_trunc width) (py_trunc height);
           surface_rect = get_rect surface;
           title_rect = Rect (fst (center surface_rect) - c_half (get_width title_image)) 0
                          (get_width title_image) (get_height title_image);
           y = of_int (rect_y title_rect + rect_h title_rect)
               + (1 / 2) * of_int item_height;
           rows = layout_rows unselected_image item_height y (zip option_images item_widths);
           button_rects = map fst rows;
           option_rects = map (fst \<circ> snd) rows;
           item_rects = map (snd \<circ> snd) rows;
           surface = fill surface (0, 0, 0, 0);
           surface = blit surface title_image (topleft title_rect);
           surface = blit_all surface (zip option_images (map topleft option_rects))
       in case button_rects of
            [] \<Rightarrow> Inl IndexError
          | first # others \<Rightarrow>
              (let surface = blit surface selected_image (topleft first);
                   surface = blit_all surface
                               (map (\<lambda>r. (unselected_image, topleft r)) others)
               in Inr \<lparr>g_unselected_image = unselected_image,
                       g_selected_image = selected_image,
                       g_options = options, g_n_options = length options,
                       g_title_image = title_image, g_surface = surface,
                       g_rect = get_rect_topleft (new_surface (py_trunc width)
                                                    (py_trunc height)) position,
                       g_button_rects = button_rects, g_item_rects = item_rects,
                       g_selected = 0, g_callback = on_change_callback,
                       g_calls = []\<rparr>)))))"

definition selected :: "selection_group \<Rightarrow> error + string" where
  "selected self =
     (if g_selected self < length (g_options self)
      then Inr (g_options self ! g_selected self) else Inl IndexError)"

text \<open>The loop of \<^verbatim>\<open>on_mouse_down\<close> over the rows, numbered from \<open>i\<close>: the first row
  whose item rectangle holds the point runs the body and breaks.\<close>

fun scan_rows ::
  "int \<Rightarrow> int \<Rightarrow> nat \<Rightarrow> (rect \<times> rect) list \<Rightarrow> selection_group \<Rightarrow> outcome \<times> selection_group"
where
  "scan_rows x y i [] self = (Returned, self)"
| "scan_rows x y i ((button_rect, item_rect) # rest) self =
     (if collidepoint item_rect x y then
        (if g_callback self \<and> i \<noteq> g_selected self then
           (if i < length (g_options self)
            then (Returned,
                  self\<lparr>g_calls := g_calls self @ [(g_options self ! i, g_selected self)],
                       g_selected := i\<rparr>)
            else (Raised IndexError, self))
         else (Returned, self\<lparr>g_selected := i\<rparr>))
      else scan_rows x y (Suc i) rest self)"

definition on_mouse_down :: "int \<Rightarrow> int \<times> int \<Rightarrow> selection_group \<Rightarrow> outcome \<times> selection_group"
where
  "on_mouse_down button mouse_pos self =
     (if button \<noteq> LEFT_CLICK then (Returned, self)
      else
        (let x = fst mouse_pos - rect_x (g_rect self);
             y = snd mouse_pos - rect_y (g_rect self);
             selected_old = g_selected self
         in case scan_rows x y 0 (zip (g_button_rects self) (g_item_rects self)) self of
              (Raised e, self) \<Rightarrow> (Raised e, self)
            | (Returned, self) \<Rightarrow>
                (if g_selected self \<noteq> selected_old then
                   (if selected_old < length (g_button_rects self) then
                      (let self = self\<lparr>g_surface :=
                                    blit (g_surface self) (g_unselected_image self)
                                      (topleft (g_button_rects self ! selected_old))\<rparr>
                       in if g_selected self < length (g_button_rects self)
                          then (Returned,
                                self\<lparr>g_surface :=
                                  blit (g_surface self) (g_selected_image self)
                                    (topleft (g_button_rects self ! g_selected self))\<rparr>)
                          else (Raised IndexError, self))
                    else (Raised IndexError, self))
                 else (Returned, self))))"

definition group_render :: "selection_group \<Rightarrow> surface" where
  "group_render self = g_surface self"

section \<open>Running a widget, and the fixtures of the examples\<close>

text \<open>The operations a host applies to an \<^verbatim>\<open>Input\<close> after constructing it. An
  exception leaves the object as the method left it, and the host may go on.\<close>

datatype input_op = SetValue pyval | MouseClick int "int \<times> int" | KeyPress int

fun apply_op :: "(int \<Rightarrow> string) \<Rightarrow> input_op \<Rightarrow> input \<Rightarrow> outcome \<times> input" where
  "apply_op key_name (SetValue v) self = set_value v self"
| "apply_op key_name (MouseClick button mouse_pos) self = on_mouse_click button mouse_pos self"
| "apply_op key_name (KeyPress key) self = on_key_press key_name key self"

fun run_ops :: "(int \<Rightarrow> string) \<Rightarrow> input_op list \<Rightarrow> input \<Rightarrow> input" where
  "run_ops key_name [] self = self"
| "run_ops key_name (op # ops) self = run_ops key_name ops (snd (apply_op key_name op self))"

text \<open>A run of key presses.\<close>

fun press_keys :: "(int \<Rightarrow> string) \<Rightarrow> int list \<Rightarrow> input \<Rightarrow> input" where
  "press_keys key_name [] self = self"
| "press_keys key_name (key # keys) self =
     press_keys key_name keys (snd (on_key_press key_name key self))"

text \<open>A key that types one character the widget accepts: neither backspace nor enter,
  with a name of length one that passes the allowed-symbol filter.\<close>

definition character_key :: "(int \<Rightarrow> string) \<Rightarrow> input \<Rightarrow> int \<Rightarrow> bool" where
  "character_key key_name self key \<longleftrightarrow>
     key \<noteq> K_BACKSPACE \<and> key \<noteq> K_RETURN \<and> length (key_name key) = 1
     \<and> symbol_allowed self (key_name key)"

text \<open>Whether a frame image of the given rectangle's size is blitted at the rectangle's
  corner, and whether that happens before the first text blit.\<close>

definition is_frame_blit :: "color \<Rightarrow> rect \<Rightarrow> draw \<Rightarrow> bool" where
  "is_frame_blit c r d \<longleftrightarrow> d = Blit (create_frame_image (rect_w r) (rect_h r) c) (topleft r)"

definition has_frame :: "input \<Rightarrow> bool" where
  "has_frame self =
     (case (i_surface self, i_value_rect self) of
        (Some s, Some r) \<Rightarrow> list_ex (is_frame_blit (i_frame_color self) r) (drawn s)
      | _ \<Rightarrow> False)"

text \<open>A fixed-width font of 8 by 16 pixel cells that renders every text; the same font
  refusing texts of more than twelve characters; and the part of \<^verbatim>\<open>pygame.key.name\<close> the
  examples use.\<close>

definition mono_font :: font where
  "mono_font = \<lparr>font_render_size = (\<lambda>s. Some (8 * int (length s), 16)),
                font_size = (\<lambda>s. (8 * int (length s), 16)),
                font_get_height = 16\<rparr>"

definition short_font :: font where
  "short_font = \<lparr>font_render_size =
                   (\<lambda>s. if 12 < length s then None else Some (8 * int (length s), 16)),
                 font_size = (\<lambda>s. (8 * int (length s), 16)),
                 font_get_height = 16\<rparr>"

definition demo_key_name :: "int \<Rightarrow> string" where
  "demo_key_name key =
     (if key = 53 then ''5'' else if key = 57 then ''9''
      else if key = 32 then ''space'' else ''unknown key'')"

definition white :: color where
  "white = (255, 255, 255)"

definition digit_symbols :: "string list" where
  "digit_symbols = map (\<lambda>ch. [ch]) ''0123456789''"


text \<open>The \<^verbatim>\<open>Input\<close> the end-to-end scenario constructs: title \<^verbatim>\<open>MINES\<close>, value \<^verbatim>\<open>10\<close>,
  editable, at most three characters, digits only, no callback. Its value rectangle spans
  x from 48 to 80. Then that widget after a click on its value; after the click and the
  key \<^verbatim>\<open>5\<close>; and after \<^verbatim>\<open>set_value\<close> with a value longer than its maximum and a click.\<close>

definition constructed_mines :: input where
  "constructed_mines =
     \<lparr>i_font = mono_font, i_font_color = white, i_width = None, i_active_input = True,
      i_in_input = False, i_title = ''MINES'', i_value = ''10'', i_current_value = ''10'',
      i_delimiter = ''  '', i_frame_color = white, i_max_value_length = Some 3,
      i_allowed_symbols = Some digit_symbols, i_on_enter_callback = None,
      i_surface = Some (Surface (72, 16)
        [Blit (create_frame_image 32 16 white) (48, 0),
         Blit (Surface (72, 16) [Glyphs ''MINES  10'' white]) (0, 0)]),
      i_value_rect = Some (Rect 48 0 32 16),
      i_rect = Some (Rect 0 0 72 16),
      i_renders = 1\<rparr>"

definition clicked_mines :: input where
  "clicked_mines = run_ops demo_key_name [MouseClick 1 (60, 5)] constructed_mines"

definition editing_mines :: input where
  "editing_mines = run_ops demo_key_name [MouseClick 1 (60, 5), KeyPress 53] constructed_mines"

definition overlong_mines :: input where
  "overlong_mines =
     run_ops demo_key_name [SetValue (PStr ''1234''), MouseClick 1 (60, 5)] constructed_mines"

text \<open>The same widget constructed without the allowed-symbol filter.\<close>

definition unfiltered_mines :: input where
  "unfiltered_mines = constructed_mines\<lparr>i_allowed_symbols := None\<rparr>"

text \<open>A display-only \<^verbatim>\<open>Input\<close> (\<^verbatim>\<open>active_input\<close> false).\<close>

definition constructed_time :: input where
  "constructed_time =
     \<lparr>i_font = mono_font, i_font_color = white, i_width = None, i_active_input = False,
      i_in_input = False, i_title = ''TIME'', i_value = ''000'', i_current_value = ''000'',
      i_delimiter = ''  '', i_frame_color = white, i_max_value_length = None,
      i_allowed_symbols = None, i_on_enter_callback = None,
      i_surface = Some (Surface (72, 16)
        [Blit (Surface (72, 16) [Glyphs ''TIME  000'' white]) (0, 0)]),
      i_value_rect = Some (Rect 40 0 40 16),
      i_rect = Some (Rect 0 0 72 16),
      i_renders = 1\<rparr>"

text \<open>An editable \<^verbatim>\<open>Input\<close> on the font that refuses long texts, holding \<^verbatim>\<open>1234\<close>, and
  that widget after a click on its value: the displayed text then has twelve
  characters.\<close>

definition constructed_tight :: input where
  "constructed_tight =
     \<lparr>i_font = short_font, i_font_color = white, i_width = None, i_active_input = True,
      i_in_input = False, i_title = ''MINES'', i_value = ''1234'', i_current_value = ''1234'',
      i_delimiter = ''  '', i_frame_color = white, i_max_value_length = None,
      i_allowed_symbols = Some digit_symbols, i_on_enter_callback = None,
      i_surface = Some (Surface (88, 16)
        [Blit (create_frame_image 48 16 white) (48, 0),
         Blit (Surface (88, 16) [Glyphs ''MINES  1234'' white]) (0, 0)]),
      i_value_rect = Some (Rect 48 0 48 16),
      i_rect = Some (Rect 0 0 88 16),
      i_renders = 1\<rparr>"

definition editing_tight :: input where
  "editing_tight = run_ops demo_key_name [MouseClick 1 (60, 5)] constructed_tight"

text \<open>A callback that reads its argument as a number, as \<^verbatim>\<open>lambda v: int(v) > 0\<close>
  would: it raises on the empty string. And an editable \<^verbatim>\<open>Input\<close> holding \<^verbatim>\<open>1\<close>,
  constructed with that callback; its value rectangle spans x from 48 to 72.\<close>

definition number_check :: "string \<Rightarrow> bool option" where
  "number_check v = (if v = [] then None else Some True)"

definition constructed_checked :: input where
  "constructed_checked =
     \<lparr>i_font = mono_font, i_font_color = white, i_width = None, i_active_input = True,
      i_in_input = False, i_title = ''MINES'', i_value = ''1'', i_current_value = ''1'',
      i_delimiter = ''  '', i_frame_color = white, i_max_value_length = None,
      i_allowed_symbols = Some digit_symbols, i_on_enter_callback = Some number_check,
      i_surface = Some (Surface (64, 16)
        [Blit (create_frame_image 24 16 white) (48, 0),
         Blit (Surface (64, 16) [Glyphs ''MINES  1'' white]) (0, 0)]),
      i_value_rect = Some (Rect 48 0 24 16),
      i_rect = Some (Rect 0 0 64 16),
      i_renders = 1\<rparr>"

text \<open>The \<^verbatim>\<open>SelectionGroup\<close> of the end-to-end scenario, with 10 by 10 markers, as its
  constructor leaves it. The item rectangles start at y = 24, 48 and 72 and are 16 high.\<close>

definition unselected_marker :: surface where
  "unselected_marker = new_surface 10 10"

definition selected_marker :: surface where
  "selected_marker = Surface (10, 10) [Fill (0, 255, 0, 255)]"

definition constructed_levels :: selection_group where
  "constructed_levels =
     \<lparr>g_unselected_image = unselected_marker, g_selected_image = selected_marker,
      g_options = [''Easy'', ''Medium'', ''Hard''], g_n_options = 3,
      g_title_image = Surface (40, 16) [Glyphs ''LEVEL'' white],
      g_surface = Surface (63, 96)
        [Fill (0, 0, 0, 0),
         Blit (Surface (40, 16) [Glyphs ''LEVEL'' white]) (11, 0),
         Blit (Surface (32, 16) [Glyphs ''Easy'' white]) (15, 21),
         Blit (Surface (48, 16) [Glyphs ''Medium'' white]) (15, 45),
         Blit (Surface (32, 16) [Glyphs ''Hard'' white]) (15, 69),
         Blit selected_marker (0, 24),
         Blit unselected_marker (0, 48),
         Blit unselected_marker (0, 72)],
      g_rect = Rect 0 0 63 96,
      g_button_rects = [Rect 0 24 10 10, Rect 0 48 10 10, Rect 0 72 10 10],
      g_item_rects = [Rect 0 24 47 16, Rect 0 48 63 16, Rect 0 72 47 16],
      g_selected = 0, g_callback = True, g_calls = []\<rparr>"

text \<open>A \<^verbatim>\<open>Label\<close> showing one character at position (5, 7).\<close>

definition constructed_label :: label where
  "constructed_label =
     \<lparr>l_font = mono_font, l_font_color = white,
      l_surface = Surface (8, 16) [Glyphs ''a'' white], l_rect = Rect 5 7 8 16\<rparr>"

section \<open>Predicates of the proofs\<close>

text \<open>Outside edit mode the pending value is the committed value.\<close>

definition idle_consistent :: "input \<Rightarrow> bool" where
  "idle_consistent self \<longleftrightarrow> (i_in_input self \<or> i_current_value self = i_value self)"

text \<open>The enter callback, if there is one, returns for every value.\<close>

definition returning_callback :: "input \<Rightarrow> bool" where
  "returning_callback self \<longleftrightarrow>
     (\<forall>cb s. i_on_enter_callback self = Some cb \<longrightarrow> cb s \<noteq> None)"

text \<open>The cached surface holds the frame around the cached value rectangle exactly when
  the widget is editable, and then the rendered text, in this order.\<close>

definition frame_then_text :: "input \<Rightarrow> bool" where
  "frame_then_text self \<longleftrightarrow>
     (\<exists>s r img p sz str.
        i_surface self = Some s \<and> i_value_rect self = Some r
        \<and> drawn s = (if i_active_input self
                      then [Blit (create_frame_image (rect_w r) (rect_h r) (i_frame_color self))
                              (topleft r)]
                      else []) @ [Blit img p]
        \<and> img = Surface sz [Glyphs str (i_font_color self)])"

definition render_inv :: "input \<Rightarrow> bool" where
  "render_inv self \<longleftrightarrow> frame_then_text self \<and> (i_active_input self \<or> \<not> i_in_input self)"

text \<open>The lists of a \<^verbatim>\<open>SelectionGroup\<close> have one entry per option and the selection is one
  of them.\<close>

definition well_formed :: "selection_group \<Rightarrow> bool" where
  "well_formed self \<longleftrightarrow>
     length (g_button_rects self) = length (g_item_rects self)
     \<and> length (g_options self) = length (g_item_rects self)
     \<and> g_selected self < length (g_item_rects self)"

text \<open>The body of the loop of \<^verbatim>\<open>on_mouse_down\<close> at row \<open>i\<close>.\<close>

definition row_body :: "nat \<Rightarrow> selection_group \<Rightarrow> outcome \<times> selection_group" where
  "row_body i self =
     (if g_callback self \<and> i \<noteq> g_selected self then
        (if i < length (g_options self)
         then (Returned,
               self\<lparr>g_calls := g_calls self @ [(g_options self ! i, g_selected self)],
                    g_selected := i\<rparr>)
         else (Raised IndexError, self))
      else (Returned, self\<lparr>g_selected := i\<rparr>))"

section \<open>Evaluating the model\<close>

lemmas draw_defs = new_surface_def draw_line_def blit_def fill_def get_width_def get_height_def
  Rect_def topleft_def rect_size_def c_half_def center_def collidepoint_def get_rect_def
  get_rect_topleft_def get_rect_center_def render_text_def create_frame_image_def

lemmas input_defs = shown_value_def render_width_def render_text_rect_def render_value_rect_def
  prepare_render_def Input_init_def set_value_def on_mouse_click_def on_key_press_def
  enter_update_def at_max_length_def symbol_allowed_def K_BACKSPACE_def K_RETURN_def
  LEFT_CLICK_def

lemma constructed_mines_init:
  "Input_init mono_font white ''MINES'' (PStr ''10'') ''  '' None True None (Some 3)
     (Some digit_symbols) None (0, 0) = Inr constructed_mines"
  by (simp add: constructed_mines_def input_defs draw_defs mono_font_def Let_def)

lemma unfiltered_mines_init:
  "Input_init mono_font white ''MINES'' (PStr ''10'') ''  '' None True None (Some 3)
     None None (0, 0) = Inr unfiltered_mines"
  by (simp add: unfiltered_mines_def constructed_mines_def input_defs draw_defs mono_font_def
      Let_def)

lemma constructed_time_init:
  "Input_init mono_font white ''TIME'' (PStr ''000'') ''  '' None False None None
     None None (0, 0) = Inr constructed_time"
  by (simp add: constructed_time_def input_defs draw_defs mono_font_def Let_def)

lemma constructed_checked_init:
  "Input_init mono_font white ''MINES'' (PStr ''1'') ''  '' None True None None
     (Some digit_symbols) (Some number_check) (0, 0) = Inr constructed_checked"
  by (simp add: constructed_checked_def input_defs draw_defs mono_font_def Let_def)

lemma constructed_tight_init:
  "Input_init short_font white ''MINES'' (PStr ''1234'') ''  '' None True None None
     (Some digit_symbols) None (0, 0) = Inr constructed_tight"
  by (simp add: constructed_tight_def input_defs draw_defs short_font_def Let_def)

lemma clicked_mines_fields:
  "i_in_input clicked_mines" "i_current_value clicked_mines = ''10''"
  "i_value clicked_mines = ''10''" "i_max_value_length clicked_mines = Some 3"
  "i_on_enter_callback clicked_mines = None"
  "i_allowed_symbols clicked_mines = Some digit_symbols"
  by (simp_all add: clicked_mines_def constructed_mines_def input_defs draw_defs
      mono_font_def demo_key_name_def digit_symbols_def Let_def)

lemma editing_mines_fields:
  "i_in_input editing_mines" "i_current_value editing_mines = ''105''"
  "i_value editing_mines = ''10''" "i_max_value_length editing_mines = Some 3"
  "i_on_enter_callback editing_mines = None"
  "i_allowed_symbols editing_mines = Some digit_symbols"
  by (simp_all add: editing_mines_def constructed_mines_def input_defs draw_defs
      mono_font_def demo_key_name_def digit_symbols_def Let_def)

lemma overlong_mines_fields:
  "i_in_input overlong_mines" "i_current_value overlong_mines = ''1234''"
  "i_value overlong_mines = ''1234''" "i_max_value_length overlong_mines = Some 3"
  "i_allowed_symbols overlong_mines = Some digit_symbols"
  by (simp_all add: overlong_mines_def constructed_mines_def input_defs draw_defs
      mono_font_def demo_key_name_def digit_symbols_def Let_def)

lemma editing_tight_fields:
  "i_in_input editing_tight" "i_current_value editing_tight = ''1234''"
  "i_value editing_tight = ''1234''" "i_renders editing_tight = 2"
  by (simp_all add: editing_tight_def constructed_tight_def input_defs draw_defs
      short_font_def demo_key_name_def digit_symbols_def Let_def)

lemma editing_tight_press:
  "fst (on_key_press demo_key_name 53 editing_tight) = Raised RenderError"
  "i_current_value (snd (on_key_press demo_key_name 53 editing_tight)) = ''12345''"
  by (simp_all add: editing_tight_def constructed_tight_def input_defs draw_defs
      short_font_def demo_key_name_def digit_symbols_def Let_def)

lemma constructed_levels_init:
  "SelectionGroup_init mono_font white unselected_marker selected_marker
     ''LEVEL'' [''Easy'', ''Medium'', ''Hard''] True (0, 0) = Inr constructed_levels"
  by (simp add: SelectionGroup_init_def constructed_levels_def py_max_def py_trunc_def
      unselected_marker_def selected_marker_def draw_defs mono_font_def Let_def)

lemma constructed_label_init:
  "Label_init mono_font white ''a'' (5, 7) = Inr constructed_label"
  by (simp add: Label_init_def constructed_label_def draw_defs mono_font_def)

section \<open>Label: \<^verbatim>\<open>set_text\<close>\<close>

lemma set_text_rect: "l_rect (snd (set_text text self)) = l_rect self"
  by (simp add: set_text_def split: option.splits)

lemma set_text_surface:
  "render_text (l_font self) text (l_font_color self) = Some s \<Longrightarrow>
   set_text text self = (Returned, self\<lparr>l_surface := s\<rparr>)"
  by (simp add: set_text_def)

text \<open>
  Claim C7. \<^verbatim>\<open>set_text\<close> replaces the cached surface by a new render
  (\<open>set_text_surface\<close>) and the bounding rectangle keeps its position; but the rectangle
  is not touched at all (\<open>set_text_rect\<close>), so its size does not follow the new render. The label constructed with the text \<^verbatim>\<open>a\<close> at (5, 7) has
  an 8 by 16 rectangle; after \<^verbatim>\<open>set_text\<close> with \<^verbatim>\<open>abc\<close> the surface is 24 by 16 and the
  rectangle is still 8 by 16.
\<close>

theorem set_text_leaves_rect_size:
  "Label_init mono_font white ''a'' (5, 7) = Inr constructed_label
   \<and> fst (set_text ''abc'' constructed_label) = Returned
   \<and> get_size (l_surface (snd (set_text ''abc'' constructed_label))) = (24, 16)
   \<and> rect_size (l_rect (snd (set_text ''abc'' constructed_label))) = (8, 16)
   \<and> topleft (l_rect (snd (set_text ''abc'' constructed_label))) = (5, 7)"
  by (simp add: Label_init_def set_text_def constructed_label_def draw_defs mono_font_def)

section \<open>SelectionGroup: construction\<close>

lemma render_options_length:
  "render_options f c options = Some ims \<Longrightarrow> length ims = length options"
  by (induction options arbitrary: ims) (auto split: option.splits)

lemma layout_rows_length [simp]: "length (layout_rows u h y xs) = length xs"
  by (induction u h y xs rule: layout_rows.induct) (simp_all add: Let_def)

lemma layout_rows_Nil [simp]: "layout_rows u h y xs = [] \<longleftrightarrow> xs = []"
  by (cases xs) (auto simp: Let_def)

lemma drawn_blit [simp]: "drawn (blit s src dest) = drawn s @ [Blit src dest]"
  by (simp add: blit_def)

lemma drawn_blit_all:
  "drawn (blit_all s xs) = drawn s @ map (\<lambda>(im, dest). Blit im dest) xs"
  by (induction s xs rule: blit_all.induct) (simp_all add: blit_def)

lemma init_size_check:
  "get_size u \<noteq> get_size s \<Longrightarrow>
   SelectionGroup_init f c u s title options cb position = Inl ValueError"
  by (simp add: SelectionGroup_init_def)

lemma init_success:
  assumes "get_size u = get_size s" and "options \<noteq> []"
    and "render_text f title c = Some title_image"
    and "render_options f c options = Some option_images"
  shows "\<exists>g before. SelectionGroup_init f c u s title options cb position = Inr g
    \<and> g_selected g = 0 \<and> g_options g = options \<and> g_callback g = cb \<and> g_calls g = []
    \<and> g_unselected_image g = u \<and> g_selected_image g = s
    \<and> length (g_button_rects g) = length options
    \<and> length (g_item_rects g) = length options
    \<and> drawn (g_surface g) =
         before @ Blit s (topleft (hd (g_button_rects g)))
                # map (\<lambda>r. Blit u (topleft r)) (tl (g_button_rects g))"
proof -
  have n: "length option_images = length options"
    using assms(4) by (rule render_options_length)
  then have ne: "option_images \<noteq> []"
    using assms(2) by auto
  show ?thesis
    using assms n ne
    by (auto simp: SelectionGroup_init_def Let_def py_max_def drawn_blit_all comp_def
        split: list.splits)
qed

lemma init_well_formed:
  assumes "SelectionGroup_init f c u s title options cb position = Inr g"
  shows "well_formed g"
proof -
  have eq: "get_size u = get_size s"
    using assms by (auto simp: SelectionGroup_init_def split: if_splits)
  obtain title_image where t: "render_text f title c = Some title_image"
    using assms eq by (auto simp: SelectionGroup_init_def split: option.splits)
  obtain option_images where os: "render_options f c options = Some option_images"
    using assms eq t by (auto simp: SelectionGroup_init_def split: option.splits)
  have n: "length option_images = length options"
    using os by (rule render_options_length)
  have ne: "options \<noteq> []"
  proof
    assume "options = []"
    with n assms eq t os show False
      by (simp add: SelectionGroup_init_def py_max_def)
  qed
  from init_success [OF eq ne t os, of cb position] assms ne show ?thesis
    by (auto simp: well_formed_def)
qed

lemma constructed_levels_well_formed: "well_formed constructed_levels"
  using constructed_levels_init by (rule init_well_formed)

text \<open>
  Claim C6, as the code has it. For a non-empty list of options, construction fails with
  \<^verbatim>\<open>ValueError\<close> if and only if the two marker images differ in size; and when they have
  the same size and the font renders the title and the options, construction succeeds,
  \<^verbatim>\<open>_selected\<close> is 0, and the last things drawn are the selected marker at the first row
  and the unselected marker at every other row.
\<close>

theorem construction_checks_marker_sizes:
  assumes "options \<noteq> []"
  shows "(SelectionGroup_init f c u s title options cb position = Inl ValueError
            \<longleftrightarrow> get_size u \<noteq> get_size s)
    \<and> (get_size u = get_size s \<and> render_text f title c \<noteq> None
          \<and> render_options f c options \<noteq> None \<longrightarrow>
        (\<exists>g before. SelectionGroup_init f c u s title options cb position = Inr g
           \<and> g_selected g = 0 \<and> g_options g = options
           \<and> length (g_button_rects g) = length options
           \<and> length (g_item_rects g) = length options
           \<and> drawn (g_surface g) =
                before @ Blit s (topleft (hd (g_button_rects g)))
                       # map (\<lambda>r. Blit u (topleft r)) (tl (g_button_rects g))))"
proof (intro conjI impI iffI)
  assume failed: "SelectionGroup_init f c u s title options cb position = Inl ValueError"
  show "get_size u \<noteq> get_size s"
  proof
    assume eq: "get_size u = get_size s"
    show False
    proof (cases "render_text f title c")
      case None
      with eq failed show False
        by (simp add: SelectionGroup_init_def)
    next
      case title: (Some title_image)
      show False
      proof (cases "render_options f c options")
        case None
        with eq title failed show False
          by (simp add: SelectionGroup_init_def)
      next
        case (Some option_images)
        from init_success [OF eq assms title Some, of cb position] failed
        show False by auto
      qed
    qed
  qed
next
  assume "get_size u \<noteq> get_size s"
  then show "SelectionGroup_init f c u s title options cb position = Inl ValueError"
    by (rule init_size_check)
next
  assume a: "get_size u = get_size s \<and> render_text f title c \<noteq> None
          \<and> render_options f c options \<noteq> None"
  then obtain title_image option_images where
    "render_text f title c = Some title_image" "render_options f c options = Some option_images"
    by auto
  from init_success [OF _ assms this, of u s cb position] a
  show "\<exists>g before. SelectionGroup_init f c u s title options cb position = Inr g
           \<and> g_selected g = 0 \<and> g_options g = options
           \<and> length (g_button_rects g) = length options
           \<and> length (g_item_rects g) = length options
           \<and> drawn (g_surface g) =
                before @ Blit s (topleft (hd (g_button_rects g)))
                       # map (\<lambda>r. Blit u (topleft r)) (tl (g_button_rects g))"
    by blast
qed

text \<open>The scenario's group is what the constructor returns for equal markers, with
  selection 0; with a 12 by 12 selected marker the constructor raises.\<close>

theorem construction_checks_marker_sizes_witness:
  "SelectionGroup_init mono_font white unselected_marker selected_marker
     ''LEVEL'' [''Easy'', ''Medium'', ''Hard''] True (0, 0) = Inr constructed_levels
   \<and> g_selected constructed_levels = 0
   \<and> SelectionGroup_init mono_font white unselected_marker (new_surface 12 12)
     ''LEVEL'' [''Easy'', ''Medium'', ''Hard''] True (0, 0) = Inl ValueError"
proof -
  have ne: "[''Easy'', ''Medium'', ''Hard''] \<noteq> []"
    by simp
  have differ: "get_size unselected_marker \<noteq> get_size (new_surface 12 12)"
    by (simp add: new_surface_def unselected_marker_def)
  have "SelectionGroup_init mono_font white unselected_marker (new_surface 12 12)
     ''LEVEL'' [''Easy'', ''Medium'', ''Hard''] True (0, 0) = Inl ValueError"
    using construction_checks_marker_sizes [OF ne, of mono_font white unselected_marker
        "new_surface 12 12" "''LEVEL''" True "(0, 0)"] differ
    by blast
  moreover have "g_selected constructed_levels = 0"
  proof -
    have sz: "get_size unselected_marker = get_size selected_marker"
      by (simp add: new_surface_def unselected_marker_def selected_marker_def)
    have rt: "render_text mono_font ''LEVEL'' white \<noteq> None"
      by (simp add: render_text_def mono_font_def)
    have ro: "render_options mono_font white [''Easy'', ''Medium'', ''Hard''] \<noteq> None"
      by (simp add: render_text_def mono_font_def)
    from construction_checks_marker_sizes [OF ne, of mono_font white unselected_marker
        selected_marker "''LEVEL''" True "(0, 0)"] sz rt ro
    obtain g where "SelectionGroup_init mono_font white unselected_marker selected_marker
        ''LEVEL'' [''Easy'', ''Medium'', ''Hard''] True (0, 0) = Inr g" and "g_selected g = 0"
      by blast
    with constructed_levels_init show ?thesis by simp
  qed
  ultimately show ?thesis
    using constructed_levels_init by simp
qed

text \<open>Claim C6 as stated promises success for every pair of equal-size markers. With an
  empty list of options the markers are equal in size and the constructor still raises
  \<^verbatim>\<open>ValueError\<close>, from \<^verbatim>\<open>max\<close> of the empty list of item widths.\<close>

theorem empty_options_fail:
  "get_size unselected_marker = get_size selected_marker
   \<and> SelectionGroup_init mono_font white unselected_marker selected_marker
        ''LEVEL'' [] True (0, 0) = Inl ValueError"
  by (simp add: SelectionGroup_init_def py_max_def unselected_marker_def selected_marker_def
      draw_defs mono_font_def)

section \<open>SelectionGroup: \<^verbatim>\<open>on_mouse_down\<close>\<close>

lemma scan_rows_hit:
  assumes "i < length rows" and "collidepoint (snd (rows ! i)) x y"
    and "\<forall>k<i. \<not> collidepoint (snd (rows ! k)) x y"
  shows "scan_rows x y n rows self = row_body (n + i) self"
  using assms
proof (induction rows arbitrary: n i)
  case Nil
  then show ?case by simp
next
  case (Cons row rows)
  obtain button_rect item_rect where row: "row = (button_rect, item_rect)"
    by (cases row)
  show ?case
  proof (cases i)
    case 0
    with Cons.prems row show ?thesis
      by (simp add: row_body_def)
  next
    case (Suc i')
    have miss: "\<not> collidepoint item_rect x y"
      using Cons.prems(3) Suc row by auto
    have "scan_rows x y (Suc n) rows self = row_body (Suc n + i') self"
    proof (rule Cons.IH)
      show "i' < length rows" using Cons.prems(1) Suc by simp
      show "collidepoint (snd (rows ! i')) x y" using Cons.prems(2) Suc by simp
      show "\<forall>k<i'. \<not> collidepoint (snd (rows ! k)) x y"
        using Cons.prems(3) Suc by auto
    qed
    with miss row Suc show ?thesis by simp
  qed
qed

lemma scan_rows_miss:
  "\<forall>k<length rows. \<not> collidepoint (snd (rows ! k)) x y \<Longrightarrow>
   scan_rows x y n rows self = (Returned, self)"
proof (induction rows arbitrary: n)
  case Nil
  then show ?case by simp
next
  case (Cons row rows)
  obtain button_rect item_rect where row: "row = (button_rect, item_rect)"
    by (cases row)
  have "\<not> collidepoint item_rect x y"
    using Cons.prems row by auto
  moreover have "\<forall>k<length rows. \<not> collidepoint (snd (rows ! k)) x y"
    using Cons.prems by auto
  ultimately show ?case
    using Cons.IH row by simp
qed

lemma scan_rows_frame:
  "scan_rows x y n rows self = (out, self') \<Longrightarrow>
   g_button_rects self' = g_button_rects self \<and> g_item_rects self' = g_item_rects self
   \<and> g_options self' = g_options self
   \<and> (g_selected self' = g_selected self \<or> g_selected self' < n + length rows)"
proof (induction rows arbitrary: n)
  case Nil
  then show ?case by simp
next
  case (Cons row rows)
  obtain button_rect item_rect where row: "row = (button_rect, item_rect)"
    by (cases row)
  show ?case
  proof (cases "collidepoint item_rect x y")
    case True
    with Cons.prems row show ?thesis
      by (auto split: if_splits)
  next
    case False
    with Cons.prems row have "scan_rows x y (Suc n) rows self = (out, self')"
      by simp
    from Cons.IH [OF this] show ?thesis by auto
  qed
qed

text \<open>Every group the constructor returns is well formed (\<open>init_well_formed\<close>), and a
  mouse-down keeps it so.\<close>

lemma on_mouse_down_well_formed:
  assumes "well_formed self"
  shows "well_formed (snd (on_mouse_down button mouse_pos self))"
proof (cases "button = LEFT_CLICK")
  case False
  with assms show ?thesis by (simp add: on_mouse_down_def)
next
  case True
  let ?x = "fst mouse_pos - rect_x (g_rect self)"
  let ?y = "snd mouse_pos - rect_y (g_rect self)"
  let ?rows = "zip (g_button_rects self) (g_item_rects self)"
  obtain out self' where r: "scan_rows ?x ?y 0 ?rows self = (out, self')"
    by (cases "scan_rows ?x ?y 0 ?rows self")
  from scan_rows_frame [OF r] assms have "well_formed self'"
    by (auto simp: well_formed_def)
  with r True show ?thesis
    by (cases out) (auto simp: on_mouse_down_def Let_def well_formed_def)
qed

text \<open>
  Claim C3. Take a group with the selection at \<open>g_selected self\<close> and a primary-button
  mouse-down at \<open>mouse_pos\<close>, which is the point \<open>(x, y)\<close> in the widget's coordinates.
  If row \<open>i\<close> is the first row, in construction order, whose item rectangle holds the
  point (later rows may hold it too) and \<open>i\<close> is not the selection, then the callback, if
  registered, is invoked once, with \<open>options[i]\<close> and while \<^verbatim>\<open>_selected\<close> still has its old
  value; afterwards \<^verbatim>\<open>_selected\<close> is \<open>i\<close> and the two markers are redrawn. If that row is
  the selection, or if no row holds the point, nothing changes: no callback, same
  selection, same surface.
\<close>

theorem click_selects_first_containing_row:
  assumes "well_formed self"
    and "x = fst mouse_pos - rect_x (g_rect self)"
    and "y = snd mouse_pos - rect_y (g_rect self)"
  shows "(\<forall>i. i < length (g_item_rects self) \<and> collidepoint (g_item_rects self ! i) x y
            \<and> (\<forall>k<i. \<not> collidepoint (g_item_rects self ! k) x y)
            \<and> i \<noteq> g_selected self \<longrightarrow>
          on_mouse_down LEFT_CLICK mouse_pos self =
            (Returned,
             self\<lparr>g_calls := g_calls self @
                      (if g_callback self then [(g_options self ! i, g_selected self)] else []),
                  g_selected := i,
                  g_surface :=
                    blit (blit (g_surface self) (g_unselected_image self)
                            (topleft (g_button_rects self ! g_selected self)))
                      (g_selected_image self) (topleft (g_button_rects self ! i))\<rparr>))
    \<and> (\<forall>i. i < length (g_item_rects self) \<and> collidepoint (g_item_rects self ! i) x y
            \<and> (\<forall>k<i. \<not> collidepoint (g_item_rects self ! k) x y)
            \<and> i = g_selected self \<longrightarrow>
          on_mouse_down LEFT_CLICK mouse_pos self = (Returned, self))
    \<and> ((\<forall>k<length (g_item_rects self). \<not> collidepoint (g_item_rects self ! k) x y) \<longrightarrow>
          on_mouse_down LEFT_CLICK mouse_pos self = (Returned, self))"
proof -
  let ?rows = "zip (g_button_rects self) (g_item_rects self)"
  have len: "length ?rows = length (g_item_rects self)"
    and nb: "length (g_button_rects self) = length (g_item_rects self)"
    and no: "length (g_options self) = length (g_item_rects self)"
    and sel: "g_selected self < length (g_item_rects self)"
    using assms(1) by (simp_all add: well_formed_def)
  have nth: "snd (?rows ! k) = g_item_rects self ! k" if "k < length (g_item_rects self)" for k
    using that nb by simp
  have hit: "scan_rows x y 0 ?rows self = row_body i self"
    if "i < length (g_item_rects self)" "collidepoint (g_item_rects self ! i) x y"
      "\<forall>k<i. \<not> collidepoint (g_item_rects self ! k) x y" for i
    using scan_rows_hit [of i ?rows x y 0 self] that len nth by simp
  have miss: "scan_rows x y 0 ?rows self = (Returned, self)"
    if "\<forall>k<length (g_item_rects self). \<not> collidepoint (g_item_rects self ! k) x y"
    using scan_rows_miss [of ?rows x y 0 self] that len nth by simp
  show ?thesis
  proof (intro conjI allI impI)
    fix i
    assume a: "i < length (g_item_rects self) \<and> collidepoint (g_item_rects self ! i) x y
            \<and> (\<forall>k<i. \<not> collidepoint (g_item_rects self ! k) x y)
            \<and> i \<noteq> g_selected self"
    then have "scan_rows x y 0 ?rows self = row_body i self"
      using hit by blast
    with a nb no sel show "on_mouse_down LEFT_CLICK mouse_pos self =
            (Returned,
             self\<lparr>g_calls := g_calls self @
                      (if g_callback self then [(g_options self ! i, g_selected self)] else []),
                  g_selected := i,
                  g_surface :=
                    blit (blit (g_surface self) (g_unselected_image self)
                            (topleft (g_button_rects self ! g_selected self)))
                      (g_selected_image self) (topleft (g_button_rects self ! i))\<rparr>)"
      unfolding on_mouse_down_def assms(2) [symmetric] assms(3) [symmetric]
      by (simp add: row_body_def Let_def)
  next
    fix i
    assume a: "i < length (g_item_rects self) \<and> collidepoint (g_item_rects self ! i) x y
            \<and> (\<forall>k<i. \<not> collidepoint (g_item_rects self ! k) x y)
            \<and> i = g_selected self"
    then have "scan_rows x y 0 ?rows self = row_body i self"
      using hit by blast
    with a show "on_mouse_down LEFT_CLICK mouse_pos self = (Returned, self)"
      unfolding on_mouse_down_def assms(2) [symmetric] assms(3) [symmetric]
      by (simp add: row_body_def Let_def)
  next
    assume "\<forall>k<length (g_item_rects self). \<not> collidepoint (g_item_rects self ! k) x y"
    then have "scan_rows x y 0 ?rows self = (Returned, self)"
      by (rule miss)
    then show "on_mouse_down LEFT_CLICK mouse_pos self = (Returned, self)"
      unfolding on_mouse_down_def assms(2) [symmetric] assms(3) [symmetric]
      by (simp add: Let_def)
  qed
qed

text \<open>On the scenario's group, with \<^verbatim>\<open>Easy\<close> selected: a click at (5, 75), inside the row
  \<^verbatim>\<open>Hard\<close>, calls back once with \<^verbatim>\<open>Hard\<close> while the selection is still 0, and selects row 2;
  a click at (5, 30), inside the selected row, and a click at (5, 5), on the title, change
  nothing.\<close>

theorem click_selects_first_containing_row_witness:
  "on_mouse_down LEFT_CLICK (5, 75) constructed_levels =
     (Returned, constructed_levels
        \<lparr>g_calls := [(''Hard'', 0)], g_selected := 2,
         g_surface := blit (blit (g_surface constructed_levels) unselected_marker (0, 24))
                        selected_marker (0, 72)\<rparr>)
   \<and> on_mouse_down LEFT_CLICK (5, 30) constructed_levels = (Returned, constructed_levels)
   \<and> on_mouse_down LEFT_CLICK (5, 5) constructed_levels = (Returned, constructed_levels)"
proof -
  note wf = constructed_levels_well_formed
  have origin: "rect_x (g_rect constructed_levels) = 0" "rect_y (g_rect constructed_levels) = 0"
    by (simp_all add: constructed_levels_def Rect_def)
  have rows: "g_item_rects constructed_levels = [Rect 0 24 47 16, Rect 0 48 63 16, Rect 0 72 47 16]"
    "g_button_rects constructed_levels = [Rect 0 24 10 10, Rect 0 48 10 10, Rect 0 72 10 10]"
    "g_options constructed_levels = [''Easy'', ''Medium'', ''Hard'']"
    "g_selected constructed_levels = 0" "g_callback constructed_levels"
    "g_calls constructed_levels = []"
    "g_unselected_image constructed_levels = unselected_marker"
    "g_selected_image constructed_levels = selected_marker"
    by (simp_all add: constructed_levels_def)
  have hard: "(2::nat) < length (g_item_rects constructed_levels)
      \<and> collidepoint (g_item_rects constructed_levels ! 2) 5 75
      \<and> (\<forall>k<2. \<not> collidepoint (g_item_rects constructed_levels ! k) 5 75)
      \<and> 2 \<noteq> g_selected constructed_levels"
    by (simp add: rows Rect_def collidepoint_def numeral_2_eq_2 All_less_Suc)
  have easy: "(0::nat) < length (g_item_rects constructed_levels)
      \<and> collidepoint (g_item_rects constructed_levels ! 0) 5 30
      \<and> (\<forall>k<0. \<not> collidepoint (g_item_rects constructed_levels ! k) 5 30)
      \<and> 0 = g_selected constructed_levels"
    by (simp add: rows Rect_def collidepoint_def)
  have none: "\<forall>k<length (g_item_rects constructed_levels).
      \<not> collidepoint (g_item_rects constructed_levels ! k) 5 5"
    by (simp add: rows Rect_def collidepoint_def numeral_3_eq_3 All_less_Suc)
  have at75: "(5::int) = fst (5::int, 75::int) - rect_x (g_rect constructed_levels)"
    "(75::int) = snd (5::int, 75::int) - rect_y (g_rect constructed_levels)"
    and at30: "(5::int) = fst (5::int, 30::int) - rect_x (g_rect constructed_levels)"
    "(30::int) = snd (5::int, 30::int) - rect_y (g_rect constructed_levels)"
    and at5: "(5::int) = fst (5::int, 5::int) - rect_x (g_rect constructed_levels)"
    "(5::int) = snd (5::int, 5::int) - rect_y (g_rect constructed_levels)"
    by (simp_all add: origin)
  have a: "on_mouse_down LEFT_CLICK (5, 75) constructed_levels =
     (Returned, constructed_levels
        \<lparr>g_calls := [(''Hard'', 0)], g_selected := 2,
         g_surface := blit (blit (g_surface constructed_levels) unselected_marker (0, 24))
                        selected_marker (0, 72)\<rparr>)"
    using click_selects_first_containing_row
      [OF wf at75, THEN conjunct1, THEN spec, of 2, THEN mp, OF hard]
    by (simp add: rows topleft_def Rect_def)
  have b: "on_mouse_down LEFT_CLICK (5, 30) constructed_levels = (Returned, constructed_levels)"
    using click_selects_first_containing_row
      [OF wf at30, THEN conjunct2, THEN conjunct1, THEN spec, of 0, THEN mp, OF easy] .
  have c: "on_mouse_down LEFT_CLICK (5, 5) constructed_levels = (Returned, constructed_levels)"
    using click_selects_first_containing_row
      [OF wf at5, THEN conjunct2, THEN conjunct2, THEN mp, OF none] .
  from a b c show ?thesis by simp
qed

section \<open>Input: the re-render and the fields it leaves alone\<close>

lemma prepare_render_cases:
  "prepare_render self = (Raised RenderError, self) \<or>
   (\<exists>s r q. prepare_render self =
       (Returned, self\<lparr>i_surface := Some s, i_value_rect := Some r, i_rect := q,
                       i_renders := Suc (i_renders self)\<rparr>))"
  unfolding prepare_render_def Let_def
  by (cases "render_text (i_font self) (i_title self @ i_delimiter self @ shown_value self)
               (i_font_color self)") (simp, simp, blast)

lemma prepare_render_logical [simp]:
  "i_in_input (snd (prepare_render self)) = i_in_input self"
  "i_value (snd (prepare_render self)) = i_value self"
  "i_current_value (snd (prepare_render self)) = i_current_value self"
  "i_active_input (snd (prepare_render self)) = i_active_input self"
  "i_max_value_length (snd (prepare_render self)) = i_max_value_length self"
  "i_allowed_symbols (snd (prepare_render self)) = i_allowed_symbols self"
  "i_on_enter_callback (snd (prepare_render self)) = i_on_enter_callback self"
  "i_frame_color (snd (prepare_render self)) = i_frame_color self"
  using prepare_render_cases [of self] by auto

lemma prepare_render_Raised:
  "prepare_render self = (Raised e, self') \<Longrightarrow> self' = self \<and> e = RenderError"
  using prepare_render_cases [of self] by auto

lemma prepare_render_renders:
  "fst (prepare_render self) = Returned \<Longrightarrow>
   i_renders (snd (prepare_render self)) = Suc (i_renders self)"
  using prepare_render_cases [of self] by auto

lemma prepare_render_not_same:
  "prepare_render self' = (Returned, self) \<Longrightarrow> i_renders self = Suc (i_renders self')"
  using prepare_render_renders [of self'] by simp

lemma enter_update_fields [simp]:
  "i_surface (snd (enter_update self)) = i_surface self"
  "i_value_rect (snd (enter_update self)) = i_value_rect self"
  "i_rect (snd (enter_update self)) = i_rect self"
  "i_renders (snd (enter_update self)) = i_renders self"
  "i_active_input (snd (enter_update self)) = i_active_input self"
  "i_frame_color (snd (enter_update self)) = i_frame_color self"
  "i_font_color (snd (enter_update self)) = i_font_color self"
  "i_on_enter_callback (snd (enter_update self)) = i_on_enter_callback self"
  "\<not> i_in_input (snd (enter_update self))"
  by (simp_all add: enter_update_def Let_def split: option.splits)

lemma enter_update_Raised:
  "enter_update self = (Raised e, self') \<Longrightarrow>
   self' = self\<lparr>i_in_input := False\<rparr> \<and> e = CallbackError"
  by (auto simp: enter_update_def Let_def split: option.splits if_splits)

text \<open>Enter, taken apart: the outcome of the callback decides whether the re-render is
  reached.\<close>

lemma on_key_press_enter:
  "i_in_input self \<Longrightarrow>
   on_key_press key_name K_RETURN self =
     (if fst (enter_update self) = Returned then prepare_render (snd (enter_update self))
      else enter_update self)"
  by (cases "enter_update self"; cases "fst (enter_update self)")
     (auto simp: on_key_press_def K_RETURN_def K_BACKSPACE_def)

lemma init_logical:
  assumes "Input_init f c title v delimiter frame_color active_input width max_value_length
             allowed_symbols on_enter_callback position = Inr self"
  shows "\<not> i_in_input self" "i_value self = py_str v" "i_current_value self = py_str v"
    "i_active_input self = active_input" "i_max_value_length self = max_value_length"
    "i_on_enter_callback self = on_enter_callback"
proof -
  let ?s0 = "\<lparr>i_font = f, i_font_color = c, i_width = width,
                  i_active_input = active_input, i_in_input = False, i_title = title,
                  i_value = py_str v, i_current_value = py_str v, i_delimiter = delimiter,
                  i_frame_color = (case frame_color of None \<Rightarrow> c | Some fc \<Rightarrow> fc),
                  i_max_value_length = max_value_length,
                  i_allowed_symbols = allowed_symbols,
                  i_on_enter_callback = on_enter_callback,
                  i_surface = None, i_value_rect = None, i_rect = None, i_renders = 0\<rparr>"
  from assms obtain q where "self = (snd (prepare_render ?s0))\<lparr>i_rect := q\<rparr>"
    by (auto simp: Input_init_def Let_def split: prod.splits outcome.splits option.splits)
  then show "\<not> i_in_input self" "i_value self = py_str v" "i_current_value self = py_str v"
    "i_active_input self = active_input" "i_max_value_length self = max_value_length"
    "i_on_enter_callback self = on_enter_callback"
    by simp_all
qed

text \<open>Neither the constructor nor \<^verbatim>\<open>set_value\<close> looks at the maximum length: the pending
  value is whatever string it is given.\<close>

lemma set_value_pending: "i_current_value (snd (set_value v self)) = py_str v"
  by (cases v) (simp_all add: set_value_def)

section \<open>Input: the frame\<close>

lemma frame_then_text_has_frame:
  "frame_then_text self \<Longrightarrow> has_frame self \<longleftrightarrow> i_active_input self"
  by (auto simp: frame_then_text_def has_frame_def is_frame_blit_def create_frame_image_def
      new_surface_def draw_line_def Let_def split: if_splits)

lemma prepare_render_Returned_shape:
  assumes "prepare_render self = (Returned, self')"
  shows "frame_then_text self'"
proof -
  from assms obtain img where
    t: "render_text (i_font self) (i_title self @ i_delimiter self @ shown_value self)
          (i_font_color self) = Some img"
    by (auto simp: prepare_render_def split: option.splits)
  then obtain sz where
    "img = Surface sz [Glyphs (i_title self @ i_delimiter self @ shown_value self)
                         (i_font_color self)]"
    by (auto simp: render_text_def split: option.splits)
  with assms t show ?thesis
    by (auto simp: prepare_render_def frame_then_text_def Let_def blit_def new_surface_def)
qed

lemma frame_then_text_cong:
  assumes "frame_then_text s"
    and "i_surface t = i_surface s" and "i_value_rect t = i_value_rect s"
    and "i_active_input t = i_active_input s" and "i_frame_color t = i_frame_color s"
    and "i_font_color t = i_font_color s"
  shows "frame_then_text t"
proof -
  have "frame_then_text t = frame_then_text s"
    unfolding frame_then_text_def assms(2-6) ..
  with assms(1) show ?thesis by simp
qed

lemma prepare_render_shape:
  assumes "frame_then_text s"
    and "i_surface t = i_surface s" and "i_value_rect t = i_value_rect s"
    and "i_active_input t = i_active_input s" and "i_frame_color t = i_frame_color s"
    and "i_font_color t = i_font_color s"
  shows "frame_then_text (snd (prepare_render t))"
proof (cases "fst (prepare_render t)")
  case Returned
  then have "prepare_render t = (Returned, snd (prepare_render t))"
    by (simp add: prod_eq_iff)
  then show ?thesis by (rule prepare_render_Returned_shape)
next
  case (Raised e)
  then have "prepare_render t = (Raised e, snd (prepare_render t))"
    by (simp add: prod_eq_iff)
  from prepare_render_Raised [OF this] have "snd (prepare_render t) = t" by simp
  with frame_then_text_cong [OF assms] show ?thesis by simp
qed

lemma set_value_inv: "render_inv self \<Longrightarrow> render_inv (snd (set_value v self))"
  by (auto simp: render_inv_def set_value_def intro: prepare_render_shape)

lemma on_mouse_click_inv:
  "render_inv self \<Longrightarrow> render_inv (snd (on_mouse_click button mouse_pos self))"
  by (auto simp: render_inv_def on_mouse_click_def Let_def split: option.splits
      intro: prepare_render_shape)

lemma on_key_press_inv:
  assumes "render_inv self"
  shows "render_inv (snd (on_key_press key_name key self))"
proof (cases "i_in_input self \<and> key = K_RETURN")
  case True
  have "frame_then_text (snd (enter_update self))"
    using assms by (auto simp: render_inv_def intro: frame_then_text_cong)
  moreover have "frame_then_text (snd (prepare_render (snd (enter_update self))))"
    using assms by (auto simp: render_inv_def intro: prepare_render_shape)
  ultimately show ?thesis
    using True by (simp add: on_key_press_enter render_inv_def)
next
  case False
  with assms show ?thesis
    by (auto simp: render_inv_def on_key_press_def intro: prepare_render_shape)
qed

lemma apply_op_inv: "render_inv self \<Longrightarrow> render_inv (snd (apply_op key_name op self))"
  by (cases op) (simp_all add: set_value_inv on_mouse_click_inv on_key_press_inv)

lemma on_key_press_config:
  "i_active_input (snd (on_key_press key_name key self)) = i_active_input self"
  "i_on_enter_callback (snd (on_key_press key_name key self)) = i_on_enter_callback self"
proof -
  have "i_active_input (snd (on_key_press key_name key self)) = i_active_input self
      \<and> i_on_enter_callback (snd (on_key_press key_name key self)) = i_on_enter_callback self"
  proof (cases "i_in_input self \<and> key = K_RETURN")
    case True
    then show ?thesis
      by (simp add: on_key_press_enter)
  next
    case False
    then show ?thesis
      by (auto simp: on_key_press_def)
  qed
  then show
    "i_active_input (snd (on_key_press key_name key self)) = i_active_input self"
    "i_on_enter_callback (snd (on_key_press key_name key self)) = i_on_enter_callback self"
    by simp_all
qed

lemma apply_op_active:
  "i_active_input (snd (apply_op key_name op self)) = i_active_input self"
  by (cases op)
     (auto simp: set_value_def on_mouse_click_def on_key_press_config Let_def
        split: option.splits)

lemma apply_op_callback:
  "i_on_enter_callback (snd (apply_op key_name op self)) = i_on_enter_callback self"
  by (cases op)
     (auto simp: set_value_def on_mouse_click_def on_key_press_config Let_def
        split: option.splits)

lemma run_ops_inv:
  "render_inv self \<Longrightarrow> render_inv (run_ops key_name ops self)"
  by (induction ops arbitrary: self) (simp_all add: apply_op_inv)

lemma run_ops_active:
  "i_active_input (run_ops key_name ops self) = i_active_input self"
  by (induction ops arbitrary: self) (simp_all add: apply_op_active)

lemma init_inv:
  assumes "Input_init f c title v delimiter frame_color active_input width max_value_length
             allowed_symbols on_enter_callback position = Inr self"
  shows "render_inv self"
proof -
  let ?s0 = "\<lparr>i_font = f, i_font_color = c, i_width = width,
                  i_active_input = active_input, i_in_input = False, i_title = title,
                  i_value = py_str v, i_current_value = py_str v, i_delimiter = delimiter,
                  i_frame_color = (case frame_color of None \<Rightarrow> c | Some fc \<Rightarrow> fc),
                  i_max_value_length = max_value_length,
                  i_allowed_symbols = allowed_symbols,
                  i_on_enter_callback = on_enter_callback,
                  i_surface = None, i_value_rect = None, i_rect = None, i_renders = 0\<rparr>"
  from assms obtain s' q where r: "prepare_render ?s0 = (Returned, s')"
    and self: "self = s'\<lparr>i_rect := q\<rparr>"
    by (auto simp: Input_init_def Let_def split: prod.splits outcome.splits option.splits)
  have "frame_then_text s'"
    using r by (rule prepare_render_Returned_shape)
  then have "frame_then_text self"
    by (rule frame_then_text_cong) (simp_all add: self)
  moreover have "\<not> i_in_input self"
    using init_logical(1) [OF assms] .
  ultimately show ?thesis
    by (simp add: render_inv_def)
qed

text \<open>
  Claim C1, as the code has it. After construction and any sequence of operations, the
  cached surface holds the frame primitive around the value rectangle if and only if the
  widget was constructed editable (\<^verbatim>\<open>active_input\<close>), whether or not it is in edit mode;
  the frame, when there, is drawn first and the rendered text is blitted after it. Edit
  mode is only entered by an editable widget, so a widget in edit mode always shows the
  frame.
\<close>

theorem frame_follows_active_input:
  assumes "Input_init f c title v delimiter frame_color active_input width max_value_length
             allowed_symbols on_enter_callback position = Inr self"
    and "t = run_ops key_name ops self"
  shows "(has_frame t \<longleftrightarrow> active_input) \<and> i_active_input t = active_input
    \<and> (i_in_input t \<longrightarrow> has_frame t)
    \<and> (\<exists>s r img p sz str.
          i_surface t = Some s \<and> i_value_rect t = Some r
          \<and> drawn s = (if active_input
                        then [Blit (create_frame_image (rect_w r) (rect_h r) (i_frame_color t))
                                (topleft r)]
                        else []) @ [Blit img p]
          \<and> img = Surface sz [Glyphs str (i_font_color t)])"
proof -
  have inv: "render_inv t"
    unfolding assms(2) by (rule run_ops_inv) (rule init_inv [OF assms(1)])
  have act: "i_active_input t = active_input"
    unfolding assms(2) by (simp add: run_ops_active init_logical(4) [OF assms(1)])
  from inv have shape: "frame_then_text t" and ed: "i_active_input t \<or> \<not> i_in_input t"
    by (simp_all add: render_inv_def)
  have hf: "has_frame t \<longleftrightarrow> active_input"
    using frame_then_text_has_frame [OF shape] act by simp
  from shape act have "\<exists>s r img p sz str.
          i_surface t = Some s \<and> i_value_rect t = Some r
          \<and> drawn s = (if active_input
                        then [Blit (create_frame_image (rect_w r) (rect_h r) (i_frame_color t))
                                (topleft r)]
                        else []) @ [Blit img p]
          \<and> img = Surface sz [Glyphs str (i_font_color t)]"
    unfolding frame_then_text_def by simp
  with hf act ed show ?thesis by blast
qed

text \<open>The editable widget of the scenario shows the frame while it is edited, and the
  display-only widget shows none.\<close>

theorem frame_follows_active_input_witness:
  "has_frame editing_mines \<and> i_in_input editing_mines \<and> i_active_input editing_mines
   \<and> \<not> has_frame constructed_time \<and> \<not> i_active_input constructed_time"
proof -
  have a: "editing_mines
             = run_ops demo_key_name [MouseClick 1 (60, 5), KeyPress 53] constructed_mines"
    by (rule editing_mines_def)
  have b: "constructed_time = run_ops demo_key_name [] constructed_time"
    by simp
  from frame_follows_active_input [OF constructed_mines_init a]
    frame_follows_active_input [OF constructed_time_init b] editing_mines_fields(1)
  show ?thesis by simp
qed

text \<open>Claim C1 as stated wants the frame absent whenever the widget is not editing. The
  scenario's widget, just constructed, is not in edit mode and its surface holds the
  frame.\<close>

theorem idle_widget_is_framed:
  "Input_init mono_font white ''MINES'' (PStr ''10'') ''  '' None True None (Some 3)
     (Some digit_symbols) None (0, 0) = Inr constructed_mines
   \<and> \<not> i_in_input constructed_mines \<and> has_frame constructed_mines"
  using constructed_mines_init
  by (simp add: constructed_mines_def has_frame_def is_frame_blit_def draw_defs)

section \<open>Input: \<^verbatim>\<open>set_value\<close>\<close>

text \<open>
  Claim C4, as the code has it. When nothing is pending, that is when the pending value
  equals the committed value as it does outside edit mode, \<^verbatim>\<open>set_value\<close> with a string
  equal to the committed value changes nothing and does not re-render, and a string
  argument is such a no-op exactly when it equals the committed value. Whenever the
  argument is not equal to the pending value (the comparison is made before \<^verbatim>\<open>str\<close>, so
  a value that is not a string never is), \<^verbatim>\<open>set_value\<close> runs the re-render on the widget
  with committed and pending value both set to \<^verbatim>\<open>str(v)\<close>; both fields have that value
  afterwards, and a completed re-render is counted. This includes the committed value
  given while a different edit is pending. Nothing is said here of an argument equal to
  a pending value that differs from the committed one.
\<close>

theorem set_value_compares_with_pending:
  "(py_eq_str v (i_value self) \<and> i_current_value self = i_value self \<longrightarrow>
        set_value v self = (Returned, self))
   \<and> (\<not> py_eq_str v (i_current_value self) \<longrightarrow>
        set_value v self
          = prepare_render (self\<lparr>i_current_value := py_str v, i_value := py_str v\<rparr>)
        \<and> i_value (snd (set_value v self)) = py_str v
        \<and> i_current_value (snd (set_value v self)) = py_str v
        \<and> (fst (set_value v self) = Returned \<longrightarrow>
              i_renders (snd (set_value v self)) = Suc (i_renders self)))
   \<and> (i_current_value self = i_value self \<longrightarrow>
        (set_value (PStr s) self = (Returned, self) \<longleftrightarrow> s = i_value self))"
proof -
  have "set_value (PStr s) self \<noteq> (Returned, self)" if "s \<noteq> i_current_value self"
  proof
    assume "set_value (PStr s) self = (Returned, self)"
    with that have "prepare_render (self\<lparr>i_current_value := s, i_value := s\<rparr>) = (Returned, self)"
      by (simp add: set_value_def)
    from prepare_render_not_same [OF this] show False by simp
  qed
  then show ?thesis
    by (auto simp: set_value_def prepare_render_renders)
qed

text \<open>On the scenario's widget, where nothing is pending: \<^verbatim>\<open>set_value("10")\<close> changes
  nothing, \<^verbatim>\<open>set_value("25")\<close> sets both values, and \<^verbatim>\<open>set_value(10)\<close>, an integer,
  re-renders although the text stays \<^verbatim>\<open>10\<close>.\<close>

theorem set_value_compares_with_pending_witness:
  "set_value (PStr ''10'') constructed_mines = (Returned, constructed_mines)
   \<and> i_value (snd (set_value (PStr ''25'') constructed_mines)) = ''25''
   \<and> i_current_value (snd (set_value (PStr ''25'') constructed_mines)) = ''25''
   \<and> i_renders (snd (set_value (PInt 10) constructed_mines)) = 2
   \<and> i_value (snd (set_value (PInt 10) constructed_mines)) = ''10''"
proof -
  have f: "i_current_value constructed_mines = ''10''" "i_renders constructed_mines = 1"
    "i_value constructed_mines = ''10''"
    by (simp_all add: constructed_mines_def)
  have ok: "fst (set_value (PInt 10) constructed_mines) = Returned"
    by (simp add: constructed_mines_def input_defs draw_defs mono_font_def Let_def)
  have ten: "digits 10 = ''10''"
    by code_simp
  note same = set_value_compares_with_pending [of "PStr ''10''" constructed_mines "''10''"]
  note other = set_value_compares_with_pending [of "PStr ''25''" constructed_mines "''10''"]
  note number = set_value_compares_with_pending [of "PInt 10" constructed_mines "''10''"]
  have "set_value (PStr ''10'') constructed_mines = (Returned, constructed_mines)"
    using same by (simp add: f)
  moreover have "i_value (snd (set_value (PStr ''25'') constructed_mines)) = ''25''
      \<and> i_current_value (snd (set_value (PStr ''25'') constructed_mines)) = ''25''"
    using other by (simp add: f)
  moreover have "i_renders (snd (set_value (PInt 10) constructed_mines)) = 2
      \<and> i_value (snd (set_value (PInt 10) constructed_mines)) = ''10''"
  proof -
    have "\<not> py_eq_str (PInt 10) (i_current_value constructed_mines)"
      by simp
    with number ok
    have "i_renders (snd (set_value (PInt 10) constructed_mines))
            = Suc (i_renders constructed_mines)
          \<and> i_value (snd (set_value (PInt 10) constructed_mines)) = py_str (PInt 10)"
      by blast
    then show ?thesis
      by (simp add: f ten)
  qed
  ultimately show ?thesis by simp
qed

text \<open>Claim C4 as stated makes \<^verbatim>\<open>set_value\<close> with the committed value a no-op. The
  scenario's widget after a click and the key \<^verbatim>\<open>5\<close> has committed value \<^verbatim>\<open>10\<close> and
  pending value \<^verbatim>\<open>105\<close>; \<^verbatim>\<open>set_value("10")\<close> then replaces the pending value and
  re-renders.\<close>

theorem set_value_resets_pending_edit:
  "i_value editing_mines = ''10'' \<and> i_current_value editing_mines = ''105''
   \<and> fst (set_value (PStr ''10'') editing_mines) = Returned
   \<and> i_current_value (snd (set_value (PStr ''10'') editing_mines)) = ''10''
   \<and> i_renders (snd (set_value (PStr ''10'') editing_mines)) = Suc (i_renders editing_mines)"
  by (simp add: editing_mines_def constructed_mines_def input_defs draw_defs
      mono_font_def demo_key_name_def digit_symbols_def Let_def)

section \<open>Input: enter commits or reverts\<close>

text \<open>
  Claim C2. For an \<^verbatim>\<open>Input\<close> in edit mode, pressing enter leaves edit mode. With no
  callback registered the pending value becomes the committed value; with a callback that
  returns an accepting (truthy) result for the pending value, likewise; with a callback
  that returns a rejecting (falsy) result, the pending value goes back to the committed
  value, which does not change. This holds of the widget's fields whether or not the
  re-render that follows succeeds.
\<close>

theorem enter_commits_or_reverts:
  assumes "i_in_input self"
  shows "\<not> i_in_input (snd (on_key_press key_name K_RETURN self))
    \<and> (i_on_enter_callback self = None \<longrightarrow>
          i_value (snd (on_key_press key_name K_RETURN self)) = i_current_value self
          \<and> i_current_value (snd (on_key_press key_name K_RETURN self)) = i_current_value self)
    \<and> (\<forall>cb. i_on_enter_callback self = Some cb \<and> cb (i_current_value self) = Some True \<longrightarrow>
          i_value (snd (on_key_press key_name K_RETURN self)) = i_current_value self
          \<and> i_current_value (snd (on_key_press key_name K_RETURN self)) = i_current_value self)
    \<and> (\<forall>cb. i_on_enter_callback self = Some cb \<and> cb (i_current_value self) = Some False \<longrightarrow>
          i_current_value (snd (on_key_press key_name K_RETURN self)) = i_value self
          \<and> i_value (snd (on_key_press key_name K_RETURN self)) = i_value self)"
  using assms
  by (auto simp: on_key_press_enter enter_update_def Let_def split: option.splits)

text \<open>The scenario's widget with pending \<^verbatim>\<open>105\<close> over committed \<^verbatim>\<open>10\<close>: without a
  callback enter commits \<^verbatim>\<open>105\<close>; with a callback that rejects everything the pending
  value returns to \<^verbatim>\<open>10\<close>.\<close>

theorem enter_commits_or_reverts_witness:
  "i_in_input editing_mines
   \<and> \<not> i_in_input (snd (on_key_press demo_key_name K_RETURN editing_mines))
   \<and> i_value (snd (on_key_press demo_key_name K_RETURN editing_mines)) = ''105''
   \<and> i_current_value (snd (on_key_press demo_key_name K_RETURN editing_mines)) = ''105''
   \<and> i_in_input (editing_mines\<lparr>i_on_enter_callback := Some (\<lambda>v. Some False)\<rparr>)
   \<and> i_value (snd (on_key_press demo_key_name K_RETURN
                     (editing_mines\<lparr>i_on_enter_callback := Some (\<lambda>v. Some False)\<rparr>))) = ''10''
   \<and> i_current_value (snd (on_key_press demo_key_name K_RETURN
                     (editing_mines\<lparr>i_on_enter_callback := Some (\<lambda>v. Some False)\<rparr>))) = ''10''"
proof -
  have a: "i_in_input editing_mines"
    by (rule editing_mines_fields)
  have b: "i_in_input (editing_mines\<lparr>i_on_enter_callback := Some (\<lambda>v. Some False)\<rparr>)"
    by (simp add: editing_mines_fields)
  show ?thesis
    using enter_commits_or_reverts [OF a, of demo_key_name]
      enter_commits_or_reverts [OF b, of demo_key_name]
    by (simp add: editing_mines_fields)
qed

section \<open>Input: pending and committed value agree outside edit mode\<close>

lemma set_value_idle: "idle_consistent self \<Longrightarrow> idle_consistent (snd (set_value v self))"
  by (simp add: idle_consistent_def set_value_def)

lemma on_mouse_click_idle:
  "idle_consistent self \<Longrightarrow> idle_consistent (snd (on_mouse_click button mouse_pos self))"
  by (simp add: idle_consistent_def on_mouse_click_def Let_def split: option.splits)

lemma enter_update_idle:
  assumes "returning_callback self"
  shows "idle_consistent (snd (enter_update self))"
proof (cases "i_on_enter_callback self")
  case None
  then show ?thesis
    by (simp add: idle_consistent_def enter_update_def Let_def)
next
  case (Some cb)
  from assms Some have "cb (i_current_value self) \<noteq> None"
    unfolding returning_callback_def by blast
  then obtain accepted where "cb (i_current_value self) = Some accepted"
    by blast
  with Some show ?thesis
    by (simp add: idle_consistent_def enter_update_def Let_def)
qed

lemma on_key_press_idle:
  assumes "idle_consistent self" and "returning_callback self"
  shows "idle_consistent (snd (on_key_press key_name key self))"
proof (cases "i_in_input self \<and> key = K_RETURN")
  case True
  have "idle_consistent (snd (prepare_render (snd (enter_update self))))"
    using enter_update_idle [OF assms(2)] by (simp add: idle_consistent_def)
  with True enter_update_idle [OF assms(2)] show ?thesis
    by (simp add: on_key_press_enter)
next
  case False
  with assms(1) show ?thesis
    by (auto simp: idle_consistent_def on_key_press_def)
qed

lemma apply_op_idle:
  "idle_consistent self \<Longrightarrow> returning_callback self \<Longrightarrow>
   idle_consistent (snd (apply_op key_name op self))"
  by (cases op) (simp_all add: set_value_idle on_mouse_click_idle on_key_press_idle)

lemma apply_op_returning:
  "returning_callback (snd (apply_op key_name op self)) = returning_callback self"
  by (simp add: returning_callback_def apply_op_callback)

lemma run_ops_idle:
  "idle_consistent self \<Longrightarrow> returning_callback self \<Longrightarrow>
   idle_consistent (run_ops key_name ops self)"
  by (induction ops arbitrary: self) (simp_all add: apply_op_idle apply_op_returning)

text \<open>
  Claim C5, as the code has it. Take an \<^verbatim>\<open>Input\<close> whose enter callback, if one is
  registered, returns for every value (it never raises). After construction and any
  sequence of \<^verbatim>\<open>set_value\<close>, \<^verbatim>\<open>on_mouse_click\<close> and \<^verbatim>\<open>on_key_press\<close> calls, with any
  arguments and whether or not a re-render raises on the way, a widget that is not in
  edit mode has its pending value equal to its committed value.
\<close>

theorem pending_is_committed_when_not_editing:
  assumes "Input_init f c title v delimiter frame_color active_input width max_value_length
             allowed_symbols on_enter_callback position = Inr self"
    and "\<forall>cb s. on_enter_callback = Some cb \<longrightarrow> cb s \<noteq> None"
    and "\<not> i_in_input (run_ops key_name ops self)"
  shows "i_current_value (run_ops key_name ops self) = i_value (run_ops key_name ops self)"
proof -
  have "idle_consistent self"
    using init_logical [OF assms(1)] by (simp add: idle_consistent_def)
  moreover have "returning_callback self"
    using init_logical(6) [OF assms(1)] assms(2) by (simp add: returning_callback_def)
  ultimately have "idle_consistent (run_ops key_name ops self)"
    by (rule run_ops_idle)
  with assms(3) show ?thesis
    by (simp add: idle_consistent_def)
qed

text \<open>The scenario's widget, which has no callback, clicked on its value, given the key
  \<^verbatim>\<open>5\<close>, then clicked outside the value: the edit is dropped and both values are
  \<^verbatim>\<open>10\<close>.\<close>

theorem pending_is_committed_when_not_editing_witness:
  "\<not> i_in_input (run_ops demo_key_name
                    [MouseClick 1 (60, 5), KeyPress 53, MouseClick 1 (0, 0)] constructed_mines)
   \<and> i_current_value (run_ops demo_key_name
                    [MouseClick 1 (60, 5), KeyPress 53, MouseClick 1 (0, 0)] constructed_mines)
     = i_value (run_ops demo_key_name
                    [MouseClick 1 (60, 5), KeyPress 53, MouseClick 1 (0, 0)] constructed_mines)
   \<and> i_value (run_ops demo_key_name
                    [MouseClick 1 (60, 5), KeyPress 53, MouseClick 1 (0, 0)] constructed_mines)
     = ''10''"
proof -
  let ?t = "run_ops demo_key_name
              [MouseClick 1 (60, 5), KeyPress 53, MouseClick 1 (0, 0)] constructed_mines"
  have idle: "\<not> i_in_input ?t" and v: "i_value ?t = ''10''"
    by (simp_all add: constructed_mines_def input_defs draw_defs mono_font_def
        demo_key_name_def digit_symbols_def Let_def)
  have none: "\<forall>cb s. (None :: (string \<Rightarrow> bool option) option) = Some cb \<longrightarrow> cb s \<noteq> None"
    by simp
  from pending_is_committed_when_not_editing [OF constructed_mines_init none idle] idle v
  show ?thesis by simp
qed

text \<open>Claim C5 as stated covers every widget. \<^verbatim>\<open>on_key_press\<close> clears the edit flag
  before it calls the callback, and a callback that raises ends the method there: the
  widget holding \<^verbatim>\<open>1\<close>, clicked on its value, after backspace and enter, is out of edit
  mode with an empty pending value over the committed value \<^verbatim>\<open>1\<close>.\<close>

theorem raising_callback_leaves_pending_edit:
  "Input_init mono_font white ''MINES'' (PStr ''1'') ''  '' None True None None
     (Some digit_symbols) (Some number_check) (0, 0) = Inr constructed_checked
   \<and> number_check [] = None
   \<and> fst (on_key_press demo_key_name K_RETURN
            (run_ops demo_key_name [MouseClick 1 (60, 5), KeyPress K_BACKSPACE]
               constructed_checked)) = Raised CallbackError
   \<and> \<not> i_in_input (run_ops demo_key_name
                      [MouseClick 1 (60, 5), KeyPress K_BACKSPACE, KeyPress K_RETURN]
                      constructed_checked)
   \<and> i_current_value (run_ops demo_key_name
                      [MouseClick 1 (60, 5), KeyPress K_BACKSPACE, KeyPress K_RETURN]
                      constructed_checked) = []
   \<and> i_value (run_ops demo_key_name
                      [MouseClick 1 (60, 5), KeyPress K_BACKSPACE, KeyPress K_RETURN]
                      constructed_checked) = ''1''"
  using constructed_checked_init
  by (simp add: constructed_checked_def number_check_def input_defs draw_defs
      mono_font_def digit_symbols_def Let_def)

section \<open>Input: the maximum length\<close>

lemma character_key_step:
  assumes "i_in_input self" and "character_key key_name self key"
  shows "i_in_input (snd (on_key_press key_name key self))"
    and "i_max_value_length (snd (on_key_press key_name key self)) = i_max_value_length self"
    and "i_allowed_symbols (snd (on_key_press key_name key self)) = i_allowed_symbols self"
    and "i_value (snd (on_key_press key_name key self)) = i_value self"
    and "i_current_value (snd (on_key_press key_name key self))
           = (if at_max_length self then i_current_value self
              else i_current_value self @ key_name key)"
  using assms by (simp_all add: on_key_press_def character_key_def)

lemma character_key_cong:
  "i_allowed_symbols s = i_allowed_symbols t \<Longrightarrow>
   character_key key_name s key = character_key key_name t key"
  by (simp add: character_key_def symbol_allowed_def)

lemma press_keys_capped:
  assumes "i_in_input self" and "i_max_value_length self = Some m"
    and "int (length (i_current_value self)) \<le> m"
    and "\<forall>key \<in> set keys. character_key key_name self key"
  shows "i_in_input (press_keys key_name keys self)
    \<and> i_max_value_length (press_keys key_name keys self) = Some m
    \<and> i_allowed_symbols (press_keys key_name keys self) = i_allowed_symbols self
    \<and> i_value (press_keys key_name keys self) = i_value self
    \<and> i_current_value (press_keys key_name keys self)
        = take (nat m) (i_current_value self @ concat (map key_name keys))"
  using assms
proof (induction keys arbitrary: self)
  case Nil
  then show ?case by simp
next
  case (Cons key keys)
  let ?s = "snd (on_key_press key_name key self)"
  have ck: "character_key key_name self key"
    using Cons.prems(4) by simp
  note step = character_key_step [OF Cons.prems(1) ck]
  have len1: "length (key_name key) = 1"
    using ck by (simp add: character_key_def)
  have le: "int (length (i_current_value ?s)) \<le> m"
    using Cons.prems(2,3) len1 by (simp add: step(5) at_max_length_def)
  have cks: "\<forall>k \<in> set keys. character_key key_name ?s k"
    using Cons.prems(4) character_key_cong [OF step(3)] by simp
  have m: "i_max_value_length ?s = Some m"
    using step(2) Cons.prems(2) by simp
  note IH = Cons.IH [OF step(1) m le cks]
  have "take (nat m) (i_current_value ?s @ concat (map key_name keys))
          = take (nat m) (i_current_value self @ key_name key @ concat (map key_name keys))"
    using Cons.prems(2,3) by (auto simp: step(5) at_max_length_def)
  with IH show ?case
    by (simp add: step)
qed

lemma typing_capped_parts:
  assumes "i_in_input self" and "i_max_value_length self = Some m"
    and "int (length (i_current_value self)) < m"
    and "\<forall>key \<in> set keys. character_key key_name self key"
    and "t = press_keys key_name keys self"
  shows "i_current_value t = take (nat m) (i_current_value self @ concat (map key_name keys))"
    and "int (length (i_current_value t))
           = min m (int (length (i_current_value self) + length keys))"
    and "i_in_input t \<and> i_value t = i_value self"
    and "\<forall>key. m \<le> int (length (i_current_value self) + length keys)
              \<and> character_key key_name self key \<longrightarrow>
            on_key_press key_name key t = (Returned, t)"
    and "i_current_value t \<noteq> [] \<longrightarrow>
           i_current_value (snd (on_key_press key_name K_BACKSPACE t))
             = butlast (i_current_value t)"
    and "\<not> i_in_input (snd (on_key_press key_name K_RETURN t))
         \<and> (i_on_enter_callback t = None \<longrightarrow>
               i_value (snd (on_key_press key_name K_RETURN t)) = i_current_value t)"
proof -
  have le: "int (length (i_current_value self)) \<le> m"
    using assms(3) by simp
  note run = press_keys_capped [OF assms(1,2) le assms(4), folded assms(5)]
  show cur: "i_current_value t = take (nat m) (i_current_value self @ concat (map key_name keys))"
    using run by simp
  have "length (concat (map key_name keys)) = length keys"
    using assms(4) by (induction keys) (simp_all add: character_key_def)
  then show len: "int (length (i_current_value t))
                   = min m (int (length (i_current_value self) + length keys))"
    using assms(3) by (simp add: cur)
  show "i_in_input t \<and> i_value t = i_value self"
    using run by simp
  show "\<forall>key. m \<le> int (length (i_current_value self) + length keys)
              \<and> character_key key_name self key \<longrightarrow>
            on_key_press key_name key t = (Returned, t)"
    using run len by (auto simp: on_key_press_def character_key_def at_max_length_def)
  show "i_current_value t \<noteq> [] \<longrightarrow>
           i_current_value (snd (on_key_press key_name K_BACKSPACE t))
             = butlast (i_current_value t)"
    using run by (simp add: on_key_press_def)
  show "\<not> i_in_input (snd (on_key_press key_name K_RETURN t))
         \<and> (i_on_enter_callback t = None \<longrightarrow>
               i_value (snd (on_key_press key_name K_RETURN t)) = i_current_value t)"
    using run
    by (auto simp: on_key_press_enter enter_update_def Let_def split: option.splits)
qed

text \<open>
  Typing keys with one-character names. Take an \<^verbatim>\<open>Input\<close> in edit mode with maximum
  length \<open>m\<close> and a pending value shorter than \<open>m\<close>, and press keys that are neither
  backspace nor enter, pass the allowed-symbol filter and have a name of exactly one
  character; \<open>t\<close> is the widget afterwards. The pending value is the old one followed by the typed
  characters, cut at \<open>m\<close> characters, so its length is \<open>m\<close> as soon as enough keys were
  pressed; the widget is still in edit mode and the committed value is untouched. Once
  the length is \<open>m\<close>, one more such key changes nothing at all. Backspace and enter are not
  subject to the cap: at any length backspace drops the last character and enter leaves
  edit mode and, with no callback, commits.
\<close>

lemma typing_is_capped:
  assumes "i_in_input self" and "i_max_value_length self = Some m"
    and "int (length (i_current_value self)) < m"
    and "\<forall>key \<in> set keys. character_key key_name self key"
    and "t = press_keys key_name keys self"
  shows "i_current_value t = take (nat m) (i_current_value self @ concat (map key_name keys))
    \<and> int (length (i_current_value t))
        = min m (int (length (i_current_value self) + length keys))
    \<and> i_in_input t \<and> i_value t = i_value self
    \<and> (\<forall>key. m \<le> int (length (i_current_value self) + length keys)
              \<and> character_key key_name self key \<longrightarrow>
            on_key_press key_name key t = (Returned, t))
    \<and> (i_current_value t \<noteq> [] \<longrightarrow>
           i_current_value (snd (on_key_press key_name K_BACKSPACE t))
             = butlast (i_current_value t))
    \<and> \<not> i_in_input (snd (on_key_press key_name K_RETURN t))
    \<and> (i_on_enter_callback t = None \<longrightarrow>
          i_value (snd (on_key_press key_name K_RETURN t)) = i_current_value t)"
  using typing_capped_parts [OF assms] by blast

text \<open>The end-to-end scenario: the clicked widget holds \<^verbatim>\<open>10\<close> with a maximum of three;
  the key \<^verbatim>\<open>5\<close> makes it \<^verbatim>\<open>105\<close>, the key \<^verbatim>\<open>9\<close> then changes nothing, backspace gives
  \<^verbatim>\<open>10\<close> and enter commits \<^verbatim>\<open>105\<close>.\<close>

lemma scenario_typing_is_capped:
  "i_current_value (press_keys demo_key_name [53] clicked_mines) = ''105''
   \<and> on_key_press demo_key_name 57 (press_keys demo_key_name [53] clicked_mines)
       = (Returned, press_keys demo_key_name [53] clicked_mines)
   \<and> i_current_value (snd (on_key_press demo_key_name K_BACKSPACE
                             (press_keys demo_key_name [53] clicked_mines))) = ''10''
   \<and> i_value (snd (on_key_press demo_key_name K_RETURN
                     (press_keys demo_key_name [53] clicked_mines))) = ''105''"
proof -
  let ?t = "press_keys demo_key_name [53] clicked_mines"
  have short: "int (length (i_current_value clicked_mines)) < 3"
    by (simp add: clicked_mines_fields)
  have five: "\<forall>key \<in> set [53]. character_key demo_key_name clicked_mines key"
    and nine: "character_key demo_key_name clicked_mines 57"
    by (simp_all add: character_key_def symbol_allowed_def clicked_mines_fields
        demo_key_name_def digit_symbols_def K_BACKSPACE_def K_RETURN_def)
  note capped = typing_is_capped [OF clicked_mines_fields(1) clicked_mines_fields(4) short five refl]
  have cur: "i_current_value ?t = ''105''"
    using capped by (simp add: clicked_mines_fields demo_key_name_def)
  have "(3::int) \<le> int (length (i_current_value clicked_mines) + length [53::int])
          \<and> character_key demo_key_name clicked_mines 57"
    using nine by (simp add: clicked_mines_fields)
  with capped have more: "on_key_press demo_key_name 57 ?t = (Returned, ?t)"
    by blast
  have shorter: "i_current_value (snd (on_key_press demo_key_name K_BACKSPACE ?t)) = ''10''"
    using capped cur by simp
  have "i_on_enter_callback ?t = None"
    by (simp add: clicked_mines_def constructed_mines_def input_defs draw_defs
        mono_font_def demo_key_name_def digit_symbols_def Let_def)
  with capped cur
  have enter: "i_value (snd (on_key_press demo_key_name K_RETURN ?t)) = ''105''"
    by simp
  from cur more shorter enter show ?thesis by simp
qed

text \<open>
  Claim C8. Typing allowed character keys is to grow the pending value up to exactly the
  maximum length and no further. \<^verbatim>\<open>on_key_press\<close> tests the length for equality with
  the maximum and then appends the whole string \<^verbatim>\<open>pygame.key.name\<close> gives for the key,
  which for many keys is longer than one character. The widget constructed with a
  maximum of three and no filter allows every key, and the name of the space bar is the
  five-character string \<^verbatim>\<open>space\<close>: from the pending value \<^verbatim>\<open>10\<close>, below the maximum, one
  press of the space bar gives a pending value of seven characters. The cap holds only
  where every key has a one-character name (\<open>typing_is_capped\<close>).
\<close>

theorem space_key_exceeds_maximum:
  "Input_init mono_font white ''MINES'' (PStr ''10'') ''  '' None True None (Some 3)
     None None (0, 0) = Inr unfiltered_mines
   \<and> i_max_value_length
       (run_ops demo_key_name [MouseClick 1 (60, 5), KeyPress 32] unfiltered_mines) = Some 3
   \<and> i_current_value
       (run_ops demo_key_name [MouseClick 1 (60, 5)] unfiltered_mines) = ''10''
   \<and> i_current_value
       (run_ops demo_key_name [MouseClick 1 (60, 5), KeyPress 32] unfiltered_mines)
       = ''10space''"
  using unfiltered_mines_init
  by (simp add: unfiltered_mines_def constructed_mines_def input_defs draw_defs
      mono_font_def demo_key_name_def Let_def)

text \<open>
  Claim C10. For an \<^verbatim>\<open>Input\<close> in edit mode whose pending value is already strictly longer
  than the maximum length, a key that is neither backspace nor enter and passes the
  allowed-symbol filter still appends its name: the guard compares the length with the
  maximum for equality, so the over-long value grows further. Such a state is reached,
  since neither the constructor nor \<^verbatim>\<open>set_value\<close> limits the length (\<open>init_logical\<close>,
  \<open>set_value_pending\<close>).
\<close>

theorem overlong_value_keeps_growing:
  assumes "i_in_input self" and "i_max_value_length self = Some m"
    and "m < int (length (i_current_value self))"
    and "key \<noteq> K_BACKSPACE" and "key \<noteq> K_RETURN"
    and "symbol_allowed self (key_name key)"
  shows "i_current_value (snd (on_key_press key_name key self))
           = i_current_value self @ key_name key
    \<and> m < int (length (i_current_value (snd (on_key_press key_name key self))))"
  using assms by (simp add: on_key_press_def at_max_length_def)

text \<open>\<^verbatim>\<open>set_value\<close> stores \<^verbatim>\<open>1234\<close> in the scenario's widget in spite of its maximum of
  three, and after a click on the value the key \<^verbatim>\<open>5\<close> makes it \<^verbatim>\<open>12345\<close>.\<close>

theorem overlong_value_keeps_growing_witness:
  "i_in_input overlong_mines \<and> i_max_value_length overlong_mines = Some 3
   \<and> i_current_value overlong_mines = ''1234''
   \<and> i_current_value (snd (on_key_press demo_key_name 53 overlong_mines)) = ''12345''"
proof -
  have long: "(3::int) < int (length (i_current_value overlong_mines))"
    and keys: "(53::int) \<noteq> K_BACKSPACE" "(53::int) \<noteq> K_RETURN"
    and ok: "symbol_allowed overlong_mines (demo_key_name 53)"
    by (simp_all add: overlong_mines_fields K_BACKSPACE_def K_RETURN_def symbol_allowed_def
        demo_key_name_def digit_symbols_def)
  have "i_current_value (snd (on_key_press demo_key_name 53 overlong_mines))
          = i_current_value overlong_mines @ demo_key_name 53"
    using overlong_value_keeps_growing
      [where self = overlong_mines and m = 3 and key = 53 and key_name = demo_key_name,
        OF overlong_mines_fields(1) overlong_mines_fields(4) long keys ok]
    by simp
  then show ?thesis
    by (simp add: overlong_mines_fields demo_key_name_def)
qed

section \<open>Input: a re-render that fails\<close>

text \<open>
  Claim C9, as the code has it. \<^verbatim>\<open>on_key_press\<close> and \<^verbatim>\<open>set_value\<close> assign the pending
  value, the committed value and the edit flag first and re-render afterwards. When the
  re-render raises, the widget is left with these fields already changed: after
  backspace the pending value has lost its last character, after enter the fields are
  as the enter handling left them (\<open>enter_update\<close>), after any other key the pending value has the key's name
  appended, after \<^verbatim>\<open>set_value\<close> both values are \<^verbatim>\<open>str(v)\<close>. What the failed re-render
  leaves intact is what it alone assigns: the cached surface, the value rectangle and the
  bounding rectangle.
\<close>

theorem failed_render_keeps_only_the_cache:
  "(on_key_press key_name key self = (Raised e, self') \<longrightarrow>
      self' = (if key = K_BACKSPACE
               then self\<lparr>i_current_value := butlast (i_current_value self)\<rparr>
               else if key = K_RETURN then snd (enter_update self)
               else self\<lparr>i_current_value := i_current_value self @ key_name key\<rparr>)
      \<and> i_surface self' = i_surface self \<and> i_value_rect self' = i_value_rect self
      \<and> i_rect self' = i_rect self \<and> i_renders self' = i_renders self)
   \<and> (set_value v self = (Raised e, self') \<longrightarrow>
      self' = self\<lparr>i_current_value := py_str v, i_value := py_str v\<rparr>
      \<and> i_surface self' = i_surface self \<and> i_value_rect self' = i_value_rect self
      \<and> i_rect self' = i_rect self \<and> i_renders self' = i_renders self)"
proof -
  have enter: "self' = snd (enter_update self)"
    if "i_in_input self" "on_key_press key_name K_RETURN self = (Raised e, self')"
    using that prepare_render_Raised [of "snd (enter_update self)" e self']
    by (auto simp: on_key_press_enter split: if_splits)
  have keys: "self' = (if key = K_BACKSPACE
               then self\<lparr>i_current_value := butlast (i_current_value self)\<rparr>
               else if key = K_RETURN then snd (enter_update self)
               else self\<lparr>i_current_value := i_current_value self @ key_name key\<rparr>)"
    if r: "on_key_press key_name key self = (Raised e, self')"
  proof (cases "key = K_RETURN")
    case True
    with r have "i_in_input self"
      by (cases "i_in_input self") (simp_all add: on_key_press_def)
    with enter r True show ?thesis
      by (simp add: K_RETURN_def K_BACKSPACE_def)
  next
    case False
    with r show ?thesis
      by (auto simp: on_key_press_def dest!: prepare_render_Raised split: if_splits)
  qed
  have sets: "self' = self\<lparr>i_current_value := py_str v, i_value := py_str v\<rparr>"
    if "set_value v self = (Raised e, self')"
    using that by (auto simp: set_value_def dest!: prepare_render_Raised split: if_splits)
  show ?thesis
    using keys sets by auto
qed

text \<open>The widget on the font that refuses long texts, in edit mode with \<^verbatim>\<open>1234\<close>: the
  key \<^verbatim>\<open>5\<close> raises in the re-render and leaves the pending value \<^verbatim>\<open>12345\<close> beside the old
  surface.\<close>

theorem failed_render_keeps_only_the_cache_witness:
  "on_key_press demo_key_name 53 editing_tight
     = (Raised RenderError, editing_tight\<lparr>i_current_value := ''12345''\<rparr>)
   \<and> i_surface (editing_tight\<lparr>i_current_value := ''12345''\<rparr>) = i_surface editing_tight"
proof -
  have r: "on_key_press demo_key_name 53 editing_tight
     = (Raised RenderError, snd (on_key_press demo_key_name 53 editing_tight))"
    using editing_tight_press(1) by (simp add: prod_eq_iff)
  show ?thesis
    using failed_render_keeps_only_the_cache
      [where key_name = demo_key_name and key = 53 and self = editing_tight
         and e = RenderError and self' = "snd (on_key_press demo_key_name 53 editing_tight)"] r
    by (simp add: K_BACKSPACE_def K_RETURN_def demo_key_name_def editing_tight_fields)
qed

text \<open>Claim C9 as stated has the prior state intact after a render failure. In the run
  above the constructor and the click succeed, the key \<^verbatim>\<open>5\<close> raises, and the pending
  value has changed from \<^verbatim>\<open>1234\<close> to \<^verbatim>\<open>12345\<close>.\<close>

theorem append_survives_failed_render:
  "Input_init short_font white ''MINES'' (PStr ''1234'') ''  '' None True None None
     (Some digit_symbols) None (0, 0) = Inr constructed_tight
   \<and> editing_tight = snd (on_mouse_click 1 (60, 5) constructed_tight)
   \<and> i_current_value editing_tight = ''1234''
   \<and> fst (on_key_press demo_key_name 53 editing_tight) = Raised RenderError
   \<and> i_current_value (snd (on_key_press demo_key_name 53 editing_tight)) = ''12345''"
proof -
  have "editing_tight = snd (on_mouse_click 1 (60, 5) constructed_tight)"
    by (simp add: editing_tight_def)
  with constructed_tight_init editing_tight_fields(2) editing_tight_press
  show ?thesis by blast
qed

end
